theory Spec2Isabelle
  imports Main "HOL-Library.AList"
begin

section \<open>Enumerations of the checker\<close>

text \<open>
  \<^verbatim>\<open>enum class NullableKind { NonNullable, Nullable, VolatileNullable }\<close>,
  \<^verbatim>\<open>NullConstraint\<close> (IsNull, IsNotNull, Unknown), \<^verbatim>\<open>enum class ConstraintValidity\<close>
  and the bug types declared in \<^verbatim>\<open>class NullablePointersChecker\<close>.
\<close>

datatype NullableKind = NonNullable | Nullable | VolatileNullable

datatype NullConstraint = IsNull | IsNotNull | Unknown

datatype ConstraintValidity = Valid | AlwaysValid | Invalid | AlwaysInvalid

datatype BugType =
    BugNullablePointerDereference
  | BugNullalbeNullptrDeference
  | BugNonNullableHasNull
  | BugNullableToNonNullable
  | BugNullptrToNonNullable
  | BugUndefinedNullable
  | BugUndefinedNonNullable
  | BugVolatilePointerEscape

section \<open>Types and declarations of the analysed program\<close>

text \<open>
  The AST comes from the front end. A type is kept desugared; a pointer, member pointer or
  reference carries the qualifiers of its pointee, so that a \<^verbatim>\<open>QualType\<close> is a pair of
  qualifiers and a type. A class type names its declaration by the declaration's identity
  (the \<^verbatim>\<open>const CXXRecordDecl *\<close> of the source), and the declarations are looked up in a
  table.
\<close>

datatype Qualifiers = Qualifiers (hasConst: bool) (hasVolatile: bool)

datatype Type =
    BuiltinType
  | BooleanType
  | NullPtrType
  | RecordType nat
  | ArrayType Qualifiers Type
  | FunctionType
  | PointerType Qualifiers Type
  | MemberPointerType Qualifiers Type
  | LValueReferenceType Qualifiers Type
  | RValueReferenceType Qualifiers Type

type_synonym QualType = "Qualifiers \<times> Type"

definition unqualified :: "Type \<Rightarrow> QualType" where
  "unqualified T = (Qualifiers False False, T)"

fun isPointerType :: "Type \<Rightarrow> bool" where
  "isPointerType (PointerType Q T) = True"
| "isPointerType T = False"

fun isMemberPointerType :: "Type \<Rightarrow> bool" where
  "isMemberPointerType (MemberPointerType Q T) = True"
| "isMemberPointerType T = False"

fun isReferenceType :: "Type \<Rightarrow> bool" where
  "isReferenceType (LValueReferenceType Q T) = True"
| "isReferenceType (RValueReferenceType Q T) = True"
| "isReferenceType T = False"

fun isNullPtrType :: "Type \<Rightarrow> bool" where
  "isNullPtrType NullPtrType = True"
| "isNullPtrType T = False"

fun isBooleanType :: "Type \<Rightarrow> bool" where
  "isBooleanType BooleanType = True"
| "isBooleanType T = False"

fun isArrayType :: "Type \<Rightarrow> bool" where
  "isArrayType (ArrayType Q T) = True"
| "isArrayType T = False"

text \<open>
  \<^verbatim>\<open>Type::getPointeeType\<close> gives the null type on a type without pointee; the callers below
  guard every use, so the null type is \<open>None\<close>.
\<close>

fun getPointeeType :: "Type \<Rightarrow> QualType option" where
  "getPointeeType (PointerType Q T) = Some (Q, T)"
| "getPointeeType (MemberPointerType Q T) = Some (Q, T)"
| "getPointeeType (LValueReferenceType Q T) = Some (Q, T)"
| "getPointeeType (RValueReferenceType Q T) = Some (Q, T)"
| "getPointeeType T = None"

fun getNonReferenceType :: "QualType \<Rightarrow> QualType" where
  "getNonReferenceType (Q, LValueReferenceType Q' T) = (Q', T)"
| "getNonReferenceType (Q, RValueReferenceType Q' T) = (Q', T)"
| "getNonReferenceType QT = QT"

text \<open>
  \<^verbatim>\<open>getNakedType\<close>: strip a reference, drop the qualifiers, and strip a reference once more
  should one be left.
\<close>

definition getNakedType :: "QualType \<Rightarrow> Type" where
  "getNakedType T =
     (let TT = snd (getNonReferenceType T)
      in if isReferenceType TT then (case getPointeeType TT of Some P \<Rightarrow> snd P | None \<Rightarrow> TT)
         else TT)"

fun getAsCXXRecordDecl :: "Type \<Rightarrow> nat option" where
  "getAsCXXRecordDecl (RecordType R) = Some R"
| "getAsCXXRecordDecl T = None"

definition getCXXRecordFromType :: "QualType \<Rightarrow> nat option" where
  "getCXXRecordFromType T = getAsCXXRecordDecl (getNakedType T)"

definition isRawPointerType :: "QualType \<Rightarrow> bool" where
  "isRawPointerType T = (isPointerType (snd T) \<or> isMemberPointerType (snd T))"


datatype AccessSpecifier = AS_public | AS_protected | AS_private | AS_none

datatype OverloadedOperatorKind = OO_None | OO_EqualEqual | OO_ExclaimEqual | OO_Other

record FieldDecl =
  FieldId :: nat
  FieldName :: string
  FieldType :: QualType

text \<open>
  A constructor, with the answers of the front end to the queries the checker makes.
  \<open>isCopyAssignmentOperator\<close> is a query of \<^verbatim>\<open>CXXMethodDecl\<close>, which the checker asks
  of constructors.
\<close>

record CXXConstructorDecl =
  isDefaultConstructor :: bool
  isCopyConstructor :: bool
  isCopyAssignmentOperator :: bool
  isConvertingConstructor :: bool
  CtorAccess :: AccessSpecifier
  CtorParams :: "QualType list"

record FunctionDecl =
  OverloadedOperator :: OverloadedOperatorKind
  parameters :: "QualType list"

text \<open>
  A member of \<^verbatim>\<open>getVisibleConversionFunctions()\<close>: a conversion function with its return
  type, or another named declaration (a conversion function template, a using shadow).
\<close>

datatype NamedDecl = CXXConversionDecl QualType | OtherNamedDecl

text \<open>
  A friend declaration: \<^verbatim>\<open>getFriendDecl()\<close> is null for a friend type, a function, or
  another named declaration (a function template).
\<close>

datatype FriendDecl = FriendType | FriendFunction FunctionDecl | FriendOther

record CXXRecordDecl =
  QualifiedName :: string
  fieldDecls :: "FieldDecl list"
  ctors :: "CXXConstructorDecl list"
  hasSimpleCopyConstructor :: bool
  hasTrivialCopyConstructor :: bool
  hasSimpleCopyAssignment :: bool
  hasTrivialCopyAssignment :: bool
  VisibleConversionFunctions :: "NamedDecl list"
  friends :: "FriendDecl list"

type_synonym Decls = "nat \<Rightarrow> CXXRecordDecl"

definition NotNullPtrQualifiedName :: string where
  "NotNullPtrQualifiedName = ''gsl::not_null''"

definition MakeNotNullQualifiedName :: string where
  "MakeNotNullQualifiedName = ''gsl::make_not_null''"

definition StdForwardQualifiedName :: string where
  "StdForwardQualifiedName = ''std::forward''"

definition StdMoveQualifiedName :: string where
  "StdMoveQualifiedName = ''std::move''"

section \<open>Type classifier\<close>

subsection \<open>The non-nullable wrapper\<close>

definition isNonNullableType :: "Decls \<Rightarrow> QualType \<Rightarrow> bool" where
  "isNonNullableType D T =
     (case getCXXRecordFromType T of
        None \<Rightarrow> False
      | Some R \<Rightarrow> QualifiedName (D R) = NotNullPtrQualifiedName)"

text \<open>
  \<^verbatim>\<open>getNonNullableField\<close>: \<^verbatim>\<open>llvm::find_if\<close> over the fields gives the first field named
  \<^verbatim>\<open>ptr_\<close>.
\<close>

definition getNonNullableField :: "Decls \<Rightarrow> QualType \<Rightarrow> FieldDecl option" where
  "getNonNullableField D T =
     (case getCXXRecordFromType T of
        None \<Rightarrow> None
      | Some R \<Rightarrow> find (\<lambda>FD. FieldName FD = ''ptr_'') (fieldDecls (D R)))"

text \<open>
  The wrapper as the specification words it: the qualified name matches and the class has a
  single non-static data member, named \<^verbatim>\<open>ptr_\<close>.
\<close>

definition spec_isNonNullableWrapper :: "Decls \<Rightarrow> QualType \<Rightarrow> bool" where
  "spec_isNonNullableWrapper D T =
     (case getCXXRecordFromType T of
        None \<Rightarrow> False
      | Some R \<Rightarrow> QualifiedName (D R) = ''gsl::not_null'' \<and>
          (case fieldDecls (D R) of [FD] \<Rightarrow> FieldName FD = ''ptr_'' | _ \<Rightarrow> False))"

subsection \<open>Nullable objects\<close>

text \<open>
  The two friend scans of \<^verbatim>\<open>isNullableObject\<close> read \<^verbatim>\<open>F->parameters()[0]\<close> and
  \<^verbatim>\<open>[1]\<close> without a length check and \<^verbatim>\<open>dyn_cast\<close> the friend declaration without a null
  check; both are undefined in the source and are errors here.
\<close>

datatype error = NullFriendDecl | ParameterOutOfRange | InfeasibleState | BadCast

text \<open>
  The body of the lambda of the two scans; \<open>Op\<close> is \<^verbatim>\<open>OO_EqualEqual\<close> in the first and
  \<^verbatim>\<open>OO_ExclaimEqual\<close> in the second. Parameter types of declarations are never null, so
  the test \<^verbatim>\<open>LHST.isNull() && RHST.isNull()\<close> is false.
\<close>

fun friendOperands :: "OverloadedOperatorKind \<Rightarrow> nat \<Rightarrow> FriendDecl \<Rightarrow> error + bool" where
  "friendOperands Op R FriendType = Inl NullFriendDecl"
| "friendOperands Op R FriendOther = Inr False"
| "friendOperands Op R (FriendFunction F) =
     (if OverloadedOperator F \<noteq> OO_None \<and> OverloadedOperator F = Op then Inr False
      else (case parameters F of
              LHST # RHST # _ \<Rightarrow>
                (let LHSR = getCXXRecordFromType LHST; RHSR = getCXXRecordFromType RHST
                 in Inr ((LHSR \<noteq> None \<and> RHSR \<noteq> None \<and> LHSR = RHSR \<and> LHSR = Some R)
                       \<or> (LHSR \<noteq> None \<and> LHSR = Some R \<and> isNullPtrType (snd RHST))
                       \<or> (RHSR \<noteq> None \<and> RHSR = Some R \<and> isNullPtrType (snd LHST))))
            | _ \<Rightarrow> Inl ParameterOutOfRange))"

text \<open>\<^verbatim>\<open>llvm::any_of\<close> stops at the first element that satisfies the predicate.\<close>

fun any_of :: "('a \<Rightarrow> error + bool) \<Rightarrow> 'a list \<Rightarrow> error + bool" where
  "any_of P [] = Inr False"
| "any_of P (x # xs) =
     (case P x of Inl e \<Rightarrow> Inl e | Inr True \<Rightarrow> Inr True | Inr False \<Rightarrow> any_of P xs)"

definition isNullPtrConversionCtor :: "CXXConstructorDecl \<Rightarrow> bool" where
  "isNullPtrConversionCtor Ctor =
     (isConvertingConstructor Ctor \<and> CtorAccess Ctor = AS_public \<and> CtorParams Ctor \<noteq> [] \<and>
      (case CtorParams Ctor of P # _ \<Rightarrow> isNullPtrType (snd P) | [] \<Rightarrow> False))"

definition isBoolConversion :: "NamedDecl \<Rightarrow> bool" where
  "isBoolConversion Conv =
     (case Conv of CXXConversionDecl RT \<Rightarrow> isBooleanType (snd RT) | OtherNamedDecl \<Rightarrow> False)"

definition isNullableObject :: "Decls \<Rightarrow> nat option \<Rightarrow> error + bool" where
  "isNullableObject D Rp =
     (case Rp of
        None \<Rightarrow> Inr False
      | Some R \<Rightarrow>
         (let RD = D R;
              HasDefaultCtor =
                list_ex (\<lambda>Ctor. isDefaultConstructor Ctor \<and> CtorAccess Ctor = AS_public) (ctors RD);
              HasCopyCtor =
                list_ex (\<lambda>Ctor. isCopyConstructor Ctor \<and> CtorAccess Ctor = AS_public) (ctors RD);
              HasCopyAssignment =
                list_ex (\<lambda>Ctor. isCopyAssignmentOperator Ctor \<and> CtorAccess Ctor = AS_public)
                  (ctors RD);
              HasNullPtrConversionCtor = list_ex isNullPtrConversionCtor (ctors RD);
              HasBoolConversion = list_ex isBoolConversion (VisibleConversionFunctions RD)
          in if \<not> HasDefaultCtor then Inr False
             else if \<not> HasCopyCtor \<and>
                     \<not> (hasSimpleCopyConstructor RD \<or> hasTrivialCopyConstructor RD)
               then Inr False
             else if \<not> HasCopyAssignment \<and>
                     \<not> (hasSimpleCopyAssignment RD \<or> hasTrivialCopyAssignment RD)
               then Inr False
             else if \<not> HasNullPtrConversionCtor then Inr False
             else if \<not> HasBoolConversion then Inr False
             else (case any_of (friendOperands OO_EqualEqual R) (friends RD) of
                     Inl e \<Rightarrow> Inl e
                   | Inr False \<Rightarrow> Inr False
                   | Inr True \<Rightarrow>
                      (case any_of (friendOperands OO_ExclaimEqual R) (friends RD) of
                         Inl e \<Rightarrow> Inl e
                       | Inr False \<Rightarrow> Inr False
                       | Inr True \<Rightarrow> Inr True))))"

section \<open>Expressions\<close>

datatype ExceptionSpecificationType =
    EST_None | EST_DynamicNone | EST_Dynamic | EST_MSAny | EST_NoThrow | EST_BasicNoexcept
  | EST_DependentNoexcept | EST_NoexceptFalse | EST_NoexceptTrue | EST_Unevaluated
  | EST_Uninstantiated | EST_Unparsed

datatype CastKind =
    CK_ArrayToPointerDecay | CK_FunctionToPointerDecay | CK_UserDefinedConversion
  | CK_LValueToRValue | CK_NoOp | CK_OtherCast

datatype UnaryOperatorKind = UO_AddrOf | UO_Deref | UO_OtherUnary

datatype BinaryOperatorKind = BO_PtrMemD | BO_PtrMemI | BO_Assign | BO_OtherBinary

text \<open>
  The expressions the checker tells apart, each with its type. A new-expression carries the
  exception specification of the allocation function \<^verbatim>\<open>getOperatorNew()\<close> selected for it
  (\<open>None\<close> when there is none); a member call carries the type of its object.
\<close>

datatype Expr =
    CXXNewExpr QualType "ExceptionSpecificationType option"
  | CXXThisExpr QualType
  | UnaryOperator QualType UnaryOperatorKind Expr
  | ImplicitCastExpr QualType CastKind Expr
  | ParenExpr Expr
  | CXXMemberCallExpr QualType QualType
  | DeclRefExpr QualType nat
  | OtherExpr QualType nat

fun getType :: "Expr \<Rightarrow> QualType" where
  "getType (CXXNewExpr T X) = T"
| "getType (CXXThisExpr T) = T"
| "getType (UnaryOperator T K E) = T"
| "getType (ImplicitCastExpr T K E) = T"
| "getType (ParenExpr E) = getType E"
| "getType (CXXMemberCallExpr T OT) = T"
| "getType (DeclRefExpr T V) = T"
| "getType (OtherExpr T N) = T"


fun IgnoreParens :: "Expr \<Rightarrow> Expr" where
  "IgnoreParens (ParenExpr E) = IgnoreParens E"
| "IgnoreParens E = E"

section \<open>Null-safe rvalues\<close>

fun isNullSafeStripped :: "Decls \<Rightarrow> Expr \<Rightarrow> bool" where
  "isNullSafeStripped D (CXXNewExpr T NewOp) =
     (case NewOp of
        None \<Rightarrow> False
      | Some ExcSpec \<Rightarrow> ExcSpec \<noteq> EST_BasicNoexcept \<and> ExcSpec \<noteq> EST_NoexceptTrue)"
| "isNullSafeStripped D (CXXThisExpr T) = True"
| "isNullSafeStripped D (UnaryOperator T Opc E) = (Opc = UO_AddrOf)"
| "isNullSafeStripped D (ImplicitCastExpr T CK Sub) =
     (if CK = CK_ArrayToPointerDecay \<or> CK = CK_FunctionToPointerDecay then True
      else if CK \<noteq> CK_UserDefinedConversion then False
      else (case Sub of
              CXXMemberCallExpr MT ObjectType \<Rightarrow> isNonNullableType D ObjectType
            | _ \<Rightarrow> False))"
| "isNullSafeStripped D E = False"

definition isNullSafeExpr :: "Decls \<Rightarrow> Expr \<Rightarrow> bool" where
  "isNullSafeExpr D E =
     (if \<not> isRawPointerType (getType E) then False
      else isNullSafeStripped D (IgnoreParens E))"

section \<open>Symbolic values, regions and the program state\<close>

text \<open>
  The memory regions the checker tells apart by kind. A typed value region carries its value
  type; a variable, temporary, symbol or function is named by its identity.
\<close>

datatype MemRegion =
    NonParamVarRegion nat QualType
  | ParamVarRegion nat QualType
  | FieldRegion nat QualType MemRegion
  | ElementRegion QualType MemRegion
  | CXXTempObjectRegion nat QualType
  | CXXLifetimeExtendedObjectRegion nat QualType
  | SymbolicRegion nat
  | CodeTextRegion nat
  | OtherRegion nat

text \<open>
  The symbolic values. \<^verbatim>\<open>UnknownNullableSVal\<close> is a value class of this analyzer that
  carries a null constraint; its flag is the value's answer to \<^verbatim>\<open>isUnknownNullable()\<close>,
  a query defined with the value classes.
\<close>

datatype SVal =
    UndefinedVal
  | UnknownVal
  | UnknownNullableSVal bool NullConstraint
  | loc_MemRegionVal MemRegion
  | loc_ConcreteInt int
  | loc_GotoLabel nat
  | nonloc_SymbolVal nat
  | nonloc_ConcreteInt int
  | nonloc_LazyCompoundVal MemRegion

fun isUndef :: "SVal \<Rightarrow> bool" where
  "isUndef UndefinedVal = True"
| "isUndef V = False"

fun isUnknown :: "SVal \<Rightarrow> bool" where
  "isUnknown UnknownVal = True"
| "isUnknown V = False"

fun isUnknownNullable :: "SVal \<Rightarrow> bool" where
  "isUnknownNullable (UnknownNullableSVal B C) = B"
| "isUnknownNullable V = False"

fun isConstant :: "SVal \<Rightarrow> bool" where
  "isConstant (loc_ConcreteInt i) = True"
| "isConstant (nonloc_ConcreteInt i) = True"
| "isConstant V = False"

fun isZeroConstant :: "SVal \<Rightarrow> bool" where
  "isZeroConstant (loc_ConcreteInt i) = (i = 0)"
| "isZeroConstant (nonloc_ConcreteInt i) = (i = 0)"
| "isZeroConstant V = False"

fun isLoc :: "SVal \<Rightarrow> bool" where
  "isLoc (loc_MemRegionVal R) = True"
| "isLoc (loc_ConcreteInt i) = True"
| "isLoc (loc_GotoLabel l) = True"
| "isLoc V = False"

fun getAsRegion :: "SVal \<Rightarrow> MemRegion option" where
  "getAsRegion (loc_MemRegionVal R) = Some R"
| "getAsRegion V = None"

fun getValueType :: "MemRegion \<Rightarrow> QualType option" where
  "getValueType (NonParamVarRegion n T) = Some T"
| "getValueType (ParamVarRegion n T) = Some T"
| "getValueType (FieldRegion n T R) = Some T"
| "getValueType (ElementRegion T R) = Some T"
| "getValueType (CXXTempObjectRegion n T) = Some T"
| "getValueType (CXXLifetimeExtendedObjectRegion n T) = Some T"
| "getValueType R = None"



fun getGLValLocRegion :: "MemRegion \<Rightarrow> MemRegion option" where
  "getGLValLocRegion (FieldRegion n T R) = Some (FieldRegion n T R)"
| "getGLValLocRegion (ParamVarRegion n T) = Some (ParamVarRegion n T)"
| "getGLValLocRegion (NonParamVarRegion n T) = Some (NonParamVarRegion n T)"
| "getGLValLocRegion (CXXTempObjectRegion n T) = Some (CXXTempObjectRegion n T)"
| "getGLValLocRegion (CXXLifetimeExtendedObjectRegion n T) =
     Some (CXXLifetimeExtendedObjectRegion n T)"
| "getGLValLocRegion R = None"

definition isGLValLoc :: "SVal \<Rightarrow> bool" where
  "isGLValLoc Val =
     (case Val of loc_MemRegionVal R \<Rightarrow> getGLValLocRegion R \<noteq> None | _ \<Rightarrow> False)"

record EscapedNullableState =
  Constraint :: NullConstraint
  Validity :: ConstraintValidity

datatype Weakening = Variant | Invariant

text \<open>
  The program state: the environment (values of expressions), the store (values of
  locations) and the constraints of the engine, and the traits this checker registers.
  A set or map that the checker iterates is a list in the order of iteration; keys of the
  nullable-object maps and symbols are opaque pointer values, and a map over symbols is kept
  in the order of its keys.
\<close>

record ProgramState =
  Env :: "Expr \<Rightarrow> SVal"
  Bindings :: "MemRegion \<Rightarrow> SVal"
  SymNull :: "nat \<Rightarrow> bool option"
  NullabilityMap :: "MemRegion \<Rightarrow> NullableKind option"
  EscapedNullable :: "(MemRegion \<times> EscapedNullableState) list"
  DNOConstraintMap :: "nat \<Rightarrow> NullConstraint option"
  DNOAliasMap :: "nat \<Rightarrow> nat list option"
  PtrToDNOAliasMap :: "(nat \<times> nat list) list"
  DNOToPtrAliasMap :: "nat \<Rightarrow> nat list option"
  PtrGuards :: "nat list"
  AliasGuard :: bool
  WeakenMap :: "(nat \<times> Weakening) list"
  WeakenSynonyms :: "(nat \<times> nat list) list"

subsection \<open>The engine's constraint store\<close>

fun getBaseSymbol :: "MemRegion \<Rightarrow> nat option" where
  "getBaseSymbol (SymbolicRegion s) = Some s"
| "getBaseSymbol (FieldRegion n T R) = getBaseSymbol R"
| "getBaseSymbol (ElementRegion T R) = getBaseSymbol R"
| "getBaseSymbol R = None"

fun getAsSymbol :: "SVal \<Rightarrow> nat option" where
  "getAsSymbol (nonloc_SymbolVal s) = Some s"
| "getAsSymbol (loc_MemRegionVal R) = getBaseSymbol R"
| "getAsSymbol V = None"

text \<open>
  Modelled from the spec: \<^verbatim>\<open>ProgramState::isNull\<close> of the engine, the constraint store of
  section 4.3 that \<^verbatim>\<open>null_constraint\<close> consults. A zero constant is null, another constant
  is not, a value with a symbol has what the store records for the symbol; \<open>Some True\<close> is
  constrained true (null), \<open>Some False\<close> constrained false, \<open>None\<close> underconstrained.
\<close>

fun isNull :: "ProgramState \<Rightarrow> SVal \<Rightarrow> bool option" where
  "isNull S (loc_ConcreteInt i) = Some (i = 0)"
| "isNull S (nonloc_ConcreteInt i) = Some (i = 0)"
| "isNull S V = (case getAsSymbol V of None \<Rightarrow> None | Some s \<Rightarrow> SymNull S s)"

text \<open>
  Modelled from the spec: \<^verbatim>\<open>ProgramState::assume\<close> of the engine on the condition that a
  symbol is not null (\<open>True\<close>) or null (\<open>False\<close>), \<^verbatim>\<open>assume(state, value, is_not_null)\<close>
  of section 4.2. The result is \<open>None\<close> (the null state) when the store already holds the
  opposite.
\<close>

definition assumeSym :: "ProgramState \<Rightarrow> nat \<Rightarrow> bool \<Rightarrow> ProgramState option" where
  "assumeSym S s NotNull =
     (case SymNull S s of
        None \<Rightarrow> Some (S\<lparr>SymNull := (SymNull S)(s \<mapsto> \<not> NotNull)\<rparr>)
      | Some B \<Rightarrow> if B = (\<not> NotNull) then Some S else None)"

text \<open>
  Modelled from the spec: \<^verbatim>\<open>assume\<close> of the engine on the comparison of a value with
  zero, \<open>IsZero\<close> being the truth assumed for \<^verbatim>\<open>V == 0\<close>. The comparison of a constant
  folds; the address of a region without symbol is never zero; an unknown value constrains
  nothing.
\<close>

fun assumeEqZero :: "ProgramState \<Rightarrow> SVal \<Rightarrow> bool \<Rightarrow> ProgramState option" where
  "assumeEqZero S (loc_ConcreteInt i) IsZero = (if (i = 0) = IsZero then Some S else None)"
| "assumeEqZero S (nonloc_ConcreteInt i) IsZero = (if (i = 0) = IsZero then Some S else None)"
| "assumeEqZero S UnknownVal IsZero = Some S"
| "assumeEqZero S UndefinedVal IsZero = None"
| "assumeEqZero S (UnknownNullableSVal B C) IsZero = Some S"
| "assumeEqZero S V IsZero =
     (case getAsSymbol V of
        Some s \<Rightarrow> assumeSym S s (\<not> IsZero)
      | None \<Rightarrow> if IsZero then None else Some S)"

subsection \<open>Null constraint of a value\<close>

definition getNullConstraint :: "SVal \<Rightarrow> ProgramState \<Rightarrow> NullConstraint" where
  "getNullConstraint V State =
     (if isUndef V then Unknown
      else if isUnknownNullable V then Unknown
      else (case V of
              UnknownNullableSVal B C \<Rightarrow> C
            | _ \<Rightarrow>
              (case (case getAsRegion V of
                       Some (ElementRegion T SR) \<Rightarrow>
                         (case getValueType SR of
                            Some ST \<Rightarrow> Some (if isArrayType (snd ST) then IsNotNull else Unknown)
                          | None \<Rightarrow> None)
                     | Some (CodeTextRegion f) \<Rightarrow> Some IsNotNull
                     | _ \<Rightarrow> None) of
                 Some C \<Rightarrow> C
               | None \<Rightarrow>
                  (case isNull State V of
                     Some False \<Rightarrow> IsNotNull
                   | Some True \<Rightarrow> IsNull
                   | None \<Rightarrow> if isGLValLoc V then IsNotNull else Unknown))))"

definition getNullabilityState :: "ProgramState \<Rightarrow> SVal \<Rightarrow> NullableKind option" where
  "getNullabilityState State Val =
     (if \<not> isLoc Val then None
      else (case getAsRegion Val of
              None \<Rightarrow> None
            | Some R \<Rightarrow> NullabilityMap State R))"

section \<open>Dereference check\<close>

text \<open>
  \<^verbatim>\<open>checkPointer\<close>. Every report goes through \<^verbatim>\<open>reportBug\<close>, which generates an error
  node, a sink, and emits the report on it (the engine gives no node when it has that one
  already). The result is the bug type handed to \<^verbatim>\<open>reportBug\<close>, or \<open>None\<close> when the
  function returns without a report. \<open>getDerefExpr\<close> is \<^verbatim>\<open>bugreporter::getDerefExpr\<close> of
  the engine; \<open>derefNullabilityState\<close> is the lambda that computes \<^verbatim>\<open>NullabilityState\<close>.
\<close>

definition derefNullabilityState ::
  "(Expr \<Rightarrow> Expr option) \<Rightarrow> Expr \<Rightarrow> ProgramState \<Rightarrow> NullableKind option" where
  "derefNullabilityState getDerefExpr S State =
     (case getDerefExpr S of
        None \<Rightarrow> None
      | Some DerefExpr \<Rightarrow>
          (let L = Env State DerefExpr
           in if isUndef L then None else getNullabilityState State L))"

definition isArrayToPointerDecay :: "Expr \<Rightarrow> bool" where
  "isArrayToPointerDecay S =
     (case S of ImplicitCastExpr T CK Sub \<Rightarrow> CK = CK_ArrayToPointerDecay | _ \<Rightarrow> False)"

definition checkPointer ::
  "(Expr \<Rightarrow> Expr option) \<Rightarrow> SVal \<Rightarrow> Expr \<Rightarrow> ProgramState \<Rightarrow> BugType option" where
  "checkPointer getDerefExpr V S State =
     (if isUndef V then Some BugUndefinedNullable
      else if isArrayToPointerDecay S then None
      else
        (let NullabilityState = derefNullabilityState getDerefExpr S State;
             PVConstraint = getNullConstraint V State
         in if NullabilityState = Some VolatileNullable then Some BugNullablePointerDereference
            else if NullabilityState = Some NonNullable then None
            else if PVConstraint = IsNotNull then None
            else if PVConstraint = IsNull then Some BugNullalbeNullptrDeference
            else Some BugNullablePointerDereference))"

subsection \<open>The hooks that check a dereference\<close>






section \<open>Nullable-object alias graph (namespace dno)\<close>

text \<open>
  An alias set (\<^verbatim>\<open>llvm::ImmutableSet\<close>) is iterated in the order of its keys; it is a
  sorted list without duplicates here. \<open>F_add\<close> and \<open>F_remove\<close> are the \<^verbatim>\<open>add\<close> and
  \<^verbatim>\<open>remove\<close> of the set factory.
\<close>

definition F_add :: "nat list \<Rightarrow> nat \<Rightarrow> nat list" where
  "F_add A K = (if K \<in> set A then A else insort K A)"

definition F_remove :: "nat list \<Rightarrow> nat \<Rightarrow> nat list" where
  "F_remove A K = removeAll K A"

text \<open>\<^verbatim>\<open>State->set<PtrToDNOAliasMap>(Sym, Aliases)\<close> on the map in the order of its keys.\<close>

fun setPtrToDNOAliasMap :: "nat \<Rightarrow> nat list \<Rightarrow> (nat \<times> nat list) list \<Rightarrow> (nat \<times> nat list) list" where
  "setPtrToDNOAliasMap Sym A [] = [(Sym, A)]"
| "setPtrToDNOAliasMap Sym A ((Sym', A') # M) =
     (if Sym < Sym' then (Sym, A) # (Sym', A') # M
      else if Sym = Sym' then (Sym, A) # M
      else (Sym', A') # setPtrToDNOAliasMap Sym A M)"

definition setDNOAliasMap :: "ProgramState \<Rightarrow> nat \<Rightarrow> nat list \<Rightarrow> ProgramState" where
  "setDNOAliasMap State K A = State\<lparr>DNOAliasMap := (DNOAliasMap State)(K \<mapsto> A)\<rparr>"

definition setDNOConstraintMap :: "ProgramState \<Rightarrow> nat \<Rightarrow> NullConstraint \<Rightarrow> ProgramState" where
  "setDNOConstraintMap State K C = State\<lparr>DNOConstraintMap := (DNOConstraintMap State)(K \<mapsto> C)\<rparr>"

definition createConstraint :: "ProgramState \<Rightarrow> nat \<Rightarrow> NullConstraint \<Rightarrow> ProgramState" where
  "createConstraint State K C = setDNOConstraintMap State K C"

text \<open>
  The loops of this namespace all have the shape
  \<^verbatim>\<open>auto I = Pending.begin(); auto E = Pending.end(); for (; I != E; ++I) { ... Pending.append(...); }\<close>.
  \<^verbatim>\<open>E\<close> is taken once, before the loop, so the loop visits the elements that \<^verbatim>\<open>Pending\<close>
  held at that moment and never an element that its body appends (the iterators stay valid
  while the vector keeps its inline storage of six elements). The loops are therefore
  recursions over the initial contents of \<^verbatim>\<open>Pending\<close>, and the appended elements, which
  nothing reads, are left out.
\<close>

fun setAliasLoop :: "nat \<Rightarrow> bool \<Rightarrow> nat list \<Rightarrow> nat list \<Rightarrow> ProgramState \<Rightarrow> ProgramState" where
  "setAliasLoop LK Break [] Visited State = State"
| "setAliasLoop LK Break (I # Rest) Visited State =
     (if I = LK then setAliasLoop LK Break Rest Visited State
      else if I \<in> set Visited then setAliasLoop LK Break Rest Visited State
      else (case DNOAliasMap State I of
              None \<Rightarrow>
                if Break then setAliasLoop LK Break Rest Visited State
                else setAliasLoop LK Break Rest (I # Visited) (setDNOAliasMap State I (F_add [] LK))
            | Some Aliases \<Rightarrow>
                setAliasLoop LK Break Rest (I # Visited)
                  (setDNOAliasMap State I
                     (if Break then F_remove Aliases LK else F_add Aliases LK))))"

text \<open>
  \<^verbatim>\<open>setAliasInternal\<close>. After the first two statements \<^verbatim>\<open>Aliases\<close> is not null (the
  source asserts it), so the statement guarded by \<^verbatim>\<open>Break && !Aliases\<close>, the only one
  that would remove \<open>RK\<close> from the set of \<open>LK\<close>, never runs.
\<close>

definition setAliasInternal :: "ProgramState \<Rightarrow> nat \<Rightarrow> nat \<Rightarrow> bool \<Rightarrow> ProgramState" where
  "setAliasInternal State LK RK Break =
     (let Aliases = DNOAliasMap State LK
      in if Aliases = None \<and> Break then State
         else
          (let State1 = (if Aliases = None \<and> \<not> Break
                         then setDNOAliasMap State LK (F_add [] RK) else State);
               Aliases1 = (if Aliases = None \<and> \<not> Break then DNOAliasMap State1 LK else Aliases)
           in case Aliases1 of
                None \<Rightarrow> State1
              | Some Pending \<Rightarrow>
                  (let State2 = (if Break \<and> Aliases1 = None
                                 then setDNOAliasMap State1 LK (F_remove Pending RK) else State1)
                   in setAliasLoop LK Break Pending [] State2)))"

definition addAlias :: "ProgramState \<Rightarrow> nat \<Rightarrow> nat \<Rightarrow> ProgramState" where
  "addAlias State LK RK = setAliasInternal (setAliasInternal State LK RK False) RK LK False"

definition breakAlias :: "ProgramState \<Rightarrow> nat \<Rightarrow> nat \<Rightarrow> ProgramState" where
  "breakAlias State LK RK = setAliasInternal (setAliasInternal State LK RK True) RK LK True"

definition breakAliases :: "ProgramState \<Rightarrow> nat \<Rightarrow> ProgramState" where
  "breakAliases State LK =
     (case DNOAliasMap State LK of
        None \<Rightarrow> State
      | Some Aliases \<Rightarrow> fold (\<lambda>AliasKey St. breakAlias St LK AliasKey) Aliases State)"

text \<open>\<^verbatim>\<open>alias(State, K, AliasK)\<close>: the key takes the constraint of the key it aliases.\<close>

definition aliasKey :: "ProgramState \<Rightarrow> nat \<Rightarrow> nat \<Rightarrow> ProgramState" where
  "aliasKey State K AliasK =
     (case DNOConstraintMap State AliasK of
        None \<Rightarrow> State
      | Some AC \<Rightarrow> addAlias (createConstraint State K AC) K AliasK)"

fun aliasSymLoop :: "nat \<Rightarrow> nat list \<Rightarrow> nat list \<Rightarrow> ProgramState \<Rightarrow> ProgramState" where
  "aliasSymLoop Sym [] Visited State = State"
| "aliasSymLoop Sym (I # Rest) Visited State =
     (if I \<in> set Visited then aliasSymLoop Sym Rest Visited State
      else
        (let SymAliases = DNOToPtrAliasMap State I;
             UpdatedAliases = F_add (case SymAliases of None \<Rightarrow> [] | Some A \<Rightarrow> A) Sym
         in aliasSymLoop Sym Rest (I # Visited)
              (State\<lparr>DNOToPtrAliasMap := (DNOToPtrAliasMap State)(I \<mapsto> UpdatedAliases)\<rparr>)))"

text \<open>\<^verbatim>\<open>alias(State, Sym, K)\<close>; the null symbol and the null key are \<open>0\<close>.\<close>

definition aliasSym :: "ProgramState \<Rightarrow> nat \<Rightarrow> nat \<Rightarrow> ProgramState" where
  "aliasSym State Sym K =
     (if Sym = 0 \<or> K = 0 then State
      else
        (let Aliases = map_of (PtrToDNOAliasMap State) Sym;
             UpdatedAliases = F_add (case Aliases of None \<Rightarrow> [] | Some A \<Rightarrow> A) K;
             State1 = State\<lparr>PtrToDNOAliasMap :=
                        setPtrToDNOAliasMap Sym UpdatedAliases (PtrToDNOAliasMap State)\<rparr>
         in aliasSymLoop Sym UpdatedAliases [] State1))"

text \<open>\<^verbatim>\<open>updateConstraint(State, ImmutableSet<NullableObjectStateKey>, C)\<close>.\<close>

fun updateConstraintSet :: "ProgramState \<Rightarrow> nat list \<Rightarrow> NullConstraint \<Rightarrow> ProgramState" where
  "updateConstraintSet State [] C = State"
| "updateConstraintSet State (I # Rest) C =
     updateConstraintSet (setDNOConstraintMap State I C) Rest C"

text \<open>
  \<^verbatim>\<open>updateConstraint(State, ImmutableSet<SymbolRef>, C)\<close>. While the guard is set the
  checker's own \<^verbatim>\<open>evalAssume\<close> returns the state as it is. An infeasible assumption gives
  the null state, which the next statement dereferences: an error here.
\<close>

fun assumeSyms :: "ProgramState \<Rightarrow> nat list \<Rightarrow> NullConstraint \<Rightarrow> error + ProgramState" where
  "assumeSyms State [] C = Inr State"
| "assumeSyms State (Sym # Rest) C =
     (case assumeSym State Sym (C = IsNotNull) of
        None \<Rightarrow> Inl InfeasibleState
      | Some State1 \<Rightarrow> assumeSyms State1 Rest C)"

definition updateConstraintSyms ::
  "ProgramState \<Rightarrow> nat list \<Rightarrow> NullConstraint \<Rightarrow> error + ProgramState" where
  "updateConstraintSyms State Aliases C =
     (case assumeSyms (State\<lparr>AliasGuard := True\<rparr>) Aliases C of
        Inl e \<Rightarrow> Inl e
      | Inr State1 \<Rightarrow> Inr (State1\<lparr>AliasGuard := False\<rparr>))"

text \<open>\<^verbatim>\<open>updateConstraint(State, NullableObjectStateKey, C)\<close>.\<close>

definition updateConstraint :: "ProgramState \<Rightarrow> nat \<Rightarrow> NullConstraint \<Rightarrow> error + ProgramState" where
  "updateConstraint State K C =
     (let State1 = setDNOConstraintMap State K C;
          State2 = (case DNOAliasMap State1 K of
                      None \<Rightarrow> State1
                    | Some Aliases \<Rightarrow> updateConstraintSet State1 Aliases C)
      in case DNOToPtrAliasMap State2 K of
           None \<Rightarrow> Inr State2
         | Some SymAliases \<Rightarrow> updateConstraintSyms State2 SymAliases C)"

text \<open>
  \<^verbatim>\<open>updateConstraint(State, SymbolRef, C)\<close>: the inner loop over the symbols aliased to a
  key, then the outer loop over the keys aliased to the symbol.
\<close>

fun updateSymAliases ::
  "ProgramState \<Rightarrow> nat list \<Rightarrow> nat list \<Rightarrow> NullConstraint \<Rightarrow> error + (ProgramState \<times> nat list)" where
  "updateSymAliases State [] VisitedSyms C = Inr (State, VisitedSyms)"
| "updateSymAliases State (SymAlias # Rest) VisitedSyms C =
     (if SymAlias \<in> set VisitedSyms then updateSymAliases State Rest VisitedSyms C
      else (case assumeSym (State\<lparr>AliasGuard := True\<rparr>) SymAlias (C = IsNotNull) of
              None \<Rightarrow> Inl InfeasibleState
            | Some State1 \<Rightarrow>
                updateSymAliases (State1\<lparr>AliasGuard := False\<rparr>) Rest (SymAlias # VisitedSyms) C))"

fun updateConstraintSymLoop ::
  "ProgramState \<Rightarrow> nat list \<Rightarrow> nat list \<Rightarrow> nat list \<Rightarrow> NullConstraint \<Rightarrow> error + ProgramState" where
  "updateConstraintSymLoop State [] VisitedSyms VisitedNullObjs C = Inr State"
| "updateConstraintSymLoop State (I # Rest) VisitedSyms VisitedNullObjs C =
     (if I \<in> set VisitedNullObjs
      then updateConstraintSymLoop State Rest VisitedSyms VisitedNullObjs C
      else
        (let State1 = setDNOConstraintMap State I C
         in case DNOToPtrAliasMap State1 I of
              None \<Rightarrow> updateConstraintSymLoop State1 Rest VisitedSyms (I # VisitedNullObjs) C
            | Some SymAliases \<Rightarrow>
               (case updateSymAliases State1 SymAliases VisitedSyms C of
                  Inl e \<Rightarrow> Inl e
                | Inr (State2, VisitedSyms2) \<Rightarrow>
                    updateConstraintSymLoop State2 Rest VisitedSyms2 (I # VisitedNullObjs) C)))"

definition updateConstraintSym ::
  "ProgramState \<Rightarrow> nat \<Rightarrow> NullConstraint \<Rightarrow> error + ProgramState" where
  "updateConstraintSym State Sym C =
     (if Sym = 0 then Inr State
      else (case map_of (PtrToDNOAliasMap State) Sym of
              None \<Rightarrow> Inr State
            | Some Aliases \<Rightarrow> updateConstraintSymLoop State Aliases [Sym] [] C))"

subsection \<open>Assumptions\<close>

text \<open>
  The loop of \<^verbatim>\<open>evalAssume\<close> over the symbol alias map as it was when the loop began.
  \<^verbatim>\<open>CMgr.isNull(State, PtrSym)\<close> is what the constraint store records for the symbol.
  \<^verbatim>\<open>updateConstraint\<close> gives the null state on an infeasible assumption, which the next
  statement dereferences.
\<close>

fun evalAssumeLoop :: "ProgramState \<Rightarrow> (nat \<times> nat list) list \<Rightarrow> error + ProgramState" where
  "evalAssumeLoop State [] = Inr State"
| "evalAssumeLoop State (PtrAliases # Rest) =
     (let PtrSym = fst PtrAliases
      in if PtrSym \<in> set (PtrGuards State) then evalAssumeLoop State Rest
         else
          (let State1 = State\<lparr>PtrGuards := F_add (PtrGuards State) PtrSym\<rparr>;
               IsNullConstraint = SymNull State1 PtrSym
           in case (if IsNullConstraint = Some True
                    then updateConstraintSym State1 PtrSym IsNull else Inr State1) of
                Inl e \<Rightarrow> Inl e
              | Inr State2 \<Rightarrow>
                 (case (if IsNullConstraint = Some False
                        then updateConstraintSym State2 PtrSym IsNotNull else Inr State2) of
                    Inl e \<Rightarrow> Inl e
                  | Inr State3 \<Rightarrow> evalAssumeLoop State3 Rest)))"

definition evalAssume :: "ProgramState \<Rightarrow> SVal \<Rightarrow> bool \<Rightarrow> error + ProgramState" where
  "evalAssume State Cond Assumption =
     (if isUndef Cond then Inr State
      else if AliasGuard State then Inr State
      else (case evalAssumeLoop State (PtrToDNOAliasMap State) of
              Inl e \<Rightarrow> Inl e
            | Inr State1 \<Rightarrow> Inr (State1\<lparr>PtrGuards := []\<rparr>)))"

text \<open>
  Modelled from the spec: \<^verbatim>\<open>ProgramState::assume(Cond, Assumption)\<close> of the engine, the
  \<^verbatim>\<open>Assume\<close> of section 4.9: the assumption on the constraint store (section 4.3) and
  then, on a feasible state, the \<^verbatim>\<open>evalAssume\<close> of the checker. \<open>Inr None\<close> is the null
  state of an infeasible assumption.
\<close>

definition assumeSVal :: "ProgramState \<Rightarrow> SVal \<Rightarrow> bool \<Rightarrow> error + ProgramState option" where
  "assumeSVal State Cond Assumption =
     (if isUnknown Cond then Inr (Some State)
      else (case assumeEqZero State Cond (\<not> Assumption) of
              None \<Rightarrow> Inr None
            | Some State1 \<Rightarrow>
               (case evalAssume State1 Cond Assumption of
                  Inl e \<Rightarrow> Inl e
                | Inr State2 \<Rightarrow> Inr (Some State2))))"

text \<open>
  Modelled from the spec: \<^verbatim>\<open>ProgramState::assume(Cond)\<close> of the engine, which gives the
  state in which the condition holds and the state in which it does not, each null when
  infeasible; both are computed, the first one first.
\<close>

definition assumeDual ::
  "ProgramState \<Rightarrow> SVal \<Rightarrow> error + (ProgramState option \<times> ProgramState option)" where
  "assumeDual State Condition =
     (case assumeSVal State Condition True of
        Inl e \<Rightarrow> Inl e
      | Inr StTrue \<Rightarrow>
         (case assumeSVal State Condition False of
            Inl e \<Rightarrow> Inl e
          | Inr StFalse \<Rightarrow> Inr (StTrue, StFalse)))"

subsection \<open>Alias equivalence classes\<close>

text \<open>
  Two keys are aliased when one is in the alias set of the other; an alias equivalence class
  is a class of the reflexive and transitive closure.
\<close>

definition aliasesOf :: "ProgramState \<Rightarrow> nat \<Rightarrow> nat list" where
  "aliasesOf State K = (case DNOAliasMap State K of None \<Rightarrow> [] | Some A \<Rightarrow> A)"

definition aliased :: "ProgramState \<Rightarrow> nat \<Rightarrow> nat \<Rightarrow> bool" where
  "aliased State K1 K2 = (K2 \<in> set (aliasesOf State K1) \<or> K1 \<in> set (aliasesOf State K2))"

definition sameAliasClass :: "ProgramState \<Rightarrow> nat \<Rightarrow> nat \<Rightarrow> bool" where
  "sameAliasClass State = (aliased State)\<^sup>*\<^sup>*"

text \<open>The state at the start of an analysis: no trait holds anything.\<close>

definition initialState :: "(Expr \<Rightarrow> SVal) \<Rightarrow> (MemRegion \<Rightarrow> SVal) \<Rightarrow> ProgramState" where
  "initialState E B =
     \<lparr>Env = E, Bindings = B, SymNull = (\<lambda>s. None), NullabilityMap = (\<lambda>R. None),
      EscapedNullable = [], DNOConstraintMap = (\<lambda>K. None), DNOAliasMap = (\<lambda>K. None),
      PtrToDNOAliasMap = [], DNOToPtrAliasMap = (\<lambda>K. None), PtrGuards = [],
      AliasGuard = False,
      WeakenMap = [], WeakenSynonyms = []\<rparr>"

definition emptyState :: ProgramState where
  "emptyState = initialState (\<lambda>E. UnknownVal) (\<lambda>R. UnknownVal)"

text \<open>
  The case of \<^verbatim>\<open>evalCall\<close> for \<^verbatim>\<open>operator=\<close> with a nullable object on both sides: the
  aliases of the left side are broken and the left side is aliased to the right.
\<close>

definition assignNullableObject :: "ProgramState \<Rightarrow> nat \<Rightarrow> nat \<Rightarrow> ProgramState" where
  "assignNullableObject State LHSKey RHSKey = aliasKey (breakAliases State LHSKey) LHSKey RHSKey"

text \<open>
  Three nullable objects \<open>c\<close>, \<open>a\<close> and \<open>b\<close> with the keys \<open>3\<close>, \<open>1\<close> and \<open>2\<close>, the
  constraint of \<open>c\<close> recorded as \<open>Unknown\<close>, after \<^verbatim>\<open>a = c; b = a;\<close>.
\<close>

definition copyChainState :: ProgramState where
  "copyChainState =
     assignNullableObject (assignNullableObject (createConstraint emptyState 3 Unknown) 1 3) 2 1"

section \<open>Results of a checker hook\<close>

text \<open>
  A hook adds successor states with \<^verbatim>\<open>C.addTransition\<close> and ends the path with
  \<^verbatim>\<open>C.addSink\<close>; when it does neither the engine goes on from the state it had. A step
  inside a hook runs into undefined behaviour of the source (\<open>Abort\<close>), reports a bug on
  the state it has reached and returns (\<open>Report\<close>), or goes on (\<open>Next\<close>).
\<close>

record HookOutcome =
  Successors :: "ProgramState list"
  Sink :: bool


section \<open>Escape tracker\<close>

definition setEscapedNullable ::
  "ProgramState \<Rightarrow> MemRegion \<Rightarrow> EscapedNullableState \<Rightarrow> ProgramState" where
  "setEscapedNullable State R Rec =
     State\<lparr>EscapedNullable := AList.update R Rec (EscapedNullable State)\<rparr>"

definition getEscapedNullable :: "ProgramState \<Rightarrow> MemRegion \<Rightarrow> EscapedNullableState option" where
  "getEscapedNullable State R = map_of (EscapedNullable State) R"

text \<open>
  A call event: its origin expression, the qualified name of the function it calls (\<open>None\<close>
  when the callee has no declaration or is not a function), the types of the parameters,
  and the expression and the value of each argument.
\<close>

record CallEvent =
  OriginExpr :: "Expr option"
  CalleeName :: "string option"
  ParamTypes :: "QualType list"
  ArgExprs :: "Expr list"
  ArgSVals :: "SVal list"

definition startswith :: "string \<Rightarrow> string \<Rightarrow> bool" where
  "startswith Str Prefix = (take (length Prefix) Str = Prefix)"

definition ignoreEscapeAnalysisFD :: "string \<Rightarrow> bool" where
  "ignoreEscapeAnalysisFD FDName =
     (if FDName = MakeNotNullQualifiedName then True
      else if FDName = StdForwardQualifiedName then True
      else if FDName = StdMoveQualifiedName then True
      else if startswith FDName NotNullPtrQualifiedName then True
      else False)"

definition ignoreEscapeAnalysis :: "CallEvent \<Rightarrow> bool" where
  "ignoreEscapeAnalysis CE =
     (case CalleeName CE of None \<Rightarrow> False | Some FDName \<Rightarrow> ignoreEscapeAnalysisFD FDName)"

subsection \<open>After a call\<close>

text \<open>
  The loop of \<^verbatim>\<open>checkPostCall\<close> over the escape records, which runs over the map as it was
  when the loop began.
\<close>

definition invalidateRecord ::
  "MemRegion \<times> EscapedNullableState \<Rightarrow> ProgramState \<Rightarrow> ProgramState" where
  "invalidateRecord EscapeRecord State =
     (let LValRegion = fst EscapeRecord;
          RecConstraint = Constraint (snd EscapeRecord);
          RecValidity = Validity (snd EscapeRecord)
      in if RecValidity = Valid \<and> RecConstraint \<noteq> Unknown
         then setEscapedNullable State LValRegion
                \<lparr>Constraint = Constraint (snd EscapeRecord), Validity = Invalid\<rparr>
         else State)"

definition invalidateEscaped :: "ProgramState \<Rightarrow> ProgramState" where
  "invalidateEscaped State = fold invalidateRecord (EscapedNullable State) State"

text \<open>
  \<^verbatim>\<open>checkPostCall\<close>, as far as it writes the escape records. It returns at once when the
  call has no origin expression. Its other statements write the environment, the store, the
  constraints, the set of non-local regions and the nullable-object maps; the loop above is
  its only statement that writes \<^verbatim>\<open>EscapedNullable\<close>.
\<close>

definition checkPostCallEscaped :: "CallEvent \<Rightarrow> ProgramState \<Rightarrow> ProgramState" where
  "checkPostCallEscaped Call State =
     (case OriginExpr Call of
        None \<Rightarrow> State
      | Some E \<Rightarrow> if \<not> ignoreEscapeAnalysis Call then invalidateEscaped State else State)"

text \<open>What a call does to one record, as the loop has it.\<close>

definition invalidated :: "EscapedNullableState \<Rightarrow> EscapedNullableState" where
  "invalidated Rec =
     (if Validity Rec = Valid \<and> Constraint Rec \<noteq> Unknown then Rec\<lparr>Validity := Invalid\<rparr> else Rec)"

subsection \<open>Before a call\<close>






text \<open>
  The first loop of \<^verbatim>\<open>checkPreCall\<close>: every escape record that is not \<open>Invalid\<close> takes the
  null constraint of the location of its region, and keeps its validity.
\<close>

definition refreshRecord ::
  "MemRegion \<times> EscapedNullableState \<Rightarrow> ProgramState \<Rightarrow> ProgramState" where
  "refreshRecord EscapeRecord State =
     (let LValRegion = fst EscapeRecord;
          RecValidity = Validity (snd EscapeRecord);
          LVal = loc_MemRegionVal LValRegion
      in if RecValidity \<noteq> Invalid
         then setEscapedNullable State LValRegion
                \<lparr>Constraint = getNullConstraint LVal State, Validity = RecValidity\<rparr>
         else State)"

definition checkPreCallRefresh :: "CallEvent \<Rightarrow> ProgramState \<Rightarrow> ProgramState" where
  "checkPreCallRefresh Call State =
     (if \<not> ignoreEscapeAnalysis Call then fold refreshRecord (EscapedNullable State) State
      else State)"


text \<open>
  The part of \<^verbatim>\<open>checkLocation\<close> that reads the escape record of the location loaded.
  \<open>NewVal\<close> is the symbol conjured for the load, \<open>RhsNullness\<close> the null constraint of the
  value loaded.
\<close>

definition bindLoc :: "ProgramState \<Rightarrow> MemRegion \<Rightarrow> SVal \<Rightarrow> ProgramState" where
  "bindLoc State R V = State\<lparr>Bindings := (Bindings State)(R := V)\<rparr>"

definition checkLocationEscaped ::
  "MemRegion \<Rightarrow> NullConstraint \<Rightarrow> SVal \<Rightarrow> ProgramState \<Rightarrow> ProgramState" where
  "checkLocationEscaped R RhsNullness NewVal State =
     (case getEscapedNullable State R of
        None \<Rightarrow> State
      | Some Rec \<Rightarrow>
         (let State1 = (if Validity Rec = Invalid \<and> RhsNullness \<noteq> Unknown
                        then setEscapedNullable (bindLoc State R NewVal) R
                               \<lparr>Constraint = Unknown, Validity = Valid\<rparr>
                        else State)
          in if Validity Rec = AlwaysInvalid then bindLoc State1 R NewVal else State1))"

subsection \<open>At a bind\<close>







section \<open>The result of a new-expression\<close>

text \<open>
  The first statement of \<^verbatim>\<open>checkPostCall\<close> after the return value is read: for a
  new-expression whose allocation function has an exception specification other than
  \<^verbatim>\<open>EST_BasicNoexcept\<close> and \<^verbatim>\<open>EST_NoexceptTrue\<close>, the comparison of the return value with
  zero is assumed false, which for the engine is to assume the value itself. The comparison
  is undefined exactly when the value is, and \<^verbatim>\<open>castAs\<close> on an undefined value is
  undefined; the null state of an infeasible assumption is dereferenced by what follows.
\<close>

definition checkPostCallNew :: "Expr \<Rightarrow> SVal \<Rightarrow> ProgramState \<Rightarrow> error + ProgramState" where
  "checkPostCallNew E ReturnSVal State =
     (case E of
        CXXNewExpr T (Some ExcSpec) \<Rightarrow>
          if ExcSpec \<noteq> EST_BasicNoexcept \<and> ExcSpec \<noteq> EST_NoexceptTrue
          then (if isUndef ReturnSVal then Inl BadCast
                else (case assumeSVal State ReturnSVal True of
                        Inl e \<Rightarrow> Inl e
                      | Inr None \<Rightarrow> Inl InfeasibleState
                      | Inr (Some State1) \<Rightarrow> Inr State1))
          else Inr State
      | _ \<Rightarrow> Inr State)"

section \<open>Entering a function\<close>

text \<open>
  The function entered: whether its declaration is implicit, its qualified name, and the
  type and region of each parameter.
\<close>

record FunctionInfo =
  isImplicit :: bool
  FunQualifiedName :: string
  FunParams :: "(QualType \<times> MemRegion) list"

definition isInterProcedural :: "string \<Rightarrow> bool" where
  "isInterProcedural FDName =
     (if FDName = MakeNotNullQualifiedName then True
      else if startswith FDName NotNullPtrQualifiedName then True
      else if FDName = StdForwardQualifiedName then True
      else if FDName = StdMoveQualifiedName then True
      else False)"

text \<open>
  Modelled from the spec: \<^verbatim>\<open>ProgramState::killBinding\<close> of the engine; the location reads
  as an unknown afterwards.
\<close>

definition killBinding :: "ProgramState \<Rightarrow> MemRegion \<Rightarrow> ProgramState" where
  "killBinding State R = State\<lparr>Bindings := (Bindings State)(R := UnknownVal)\<rparr>"

definition checkBeginFunction ::
  "Decls \<Rightarrow> FunctionInfo \<Rightarrow> bool \<Rightarrow> ProgramState \<Rightarrow> HookOutcome" where
  "checkBeginFunction D FD inTopFrame State =
     (if isImplicit FD then \<lparr>Successors = [], Sink = True\<rparr>
      else if inTopFrame then \<lparr>Successors = [], Sink = False\<rparr>
      else if isInterProcedural (FunQualifiedName FD) then \<lparr>Successors = [], Sink = False\<rparr>
      else \<lparr>Successors =
              [fold (\<lambda>Param St. if isNonNullableType D (fst Param) then St
                                 else killBinding St (snd Param))
                 (FunParams FD) State],
            Sink = False\<rparr>)"

section \<open>Loop condition\<close>

definition isUnknownOrUndef :: "SVal \<Rightarrow> bool" where
  "isUnknownOrUndef V = (isUnknown V \<or> isUndef V)"

definition clearWeaken :: "ProgramState \<Rightarrow> ProgramState" where
  "clearWeaken State = State\<lparr>WeakenMap := [], WeakenSynonyms := []\<rparr>"

text \<open>
  \<^verbatim>\<open>checkLoopCondition\<close> from the point where the value of the condition is read. The
  statements that follow the unconditional return after the case of the second evaluation
  are never run.
\<close>

definition checkLoopCondition :: "nat \<Rightarrow> Expr \<Rightarrow> ProgramState \<Rightarrow> error + HookOutcome" where
  "checkLoopCondition blockCount S State =
     (let Cond = Env State S
      in if isUnknownOrUndef Cond then Inr \<lparr>Successors = [], Sink = False\<rparr>
         else if blockCount = 1 then
           (if \<not> isConstant Cond then
              (case assumeDual State Cond of
                 Inl e \<Rightarrow> Inl e
               | Inr (StTrue, StFalse) \<Rightarrow>
                  Inr \<lparr>Successors =
                         (case StTrue of None \<Rightarrow> [] | Some T \<Rightarrow> [T]) @
                         (case StFalse of None \<Rightarrow> [] | Some F \<Rightarrow> [clearWeaken F]),
                       Sink = False\<rparr>)
            else if isZeroConstant Cond
              then Inr \<lparr>Successors = [clearWeaken State], Sink = False\<rparr>
            else Inr \<lparr>Successors = [], Sink = False\<rparr>)
         else if blockCount = 2 then
           (if \<not> isConstant Cond then
              (case assumeDual State Cond of
                 Inl e \<Rightarrow> Inl e
               | Inr (StTrue, StFalse) \<Rightarrow>
                  Inr \<lparr>Successors = (case StFalse of None \<Rightarrow> [] | Some F \<Rightarrow> [clearWeaken F]),
                       Sink = False\<rparr>)
            else if \<not> isZeroConstant Cond then Inr \<lparr>Successors = [], Sink = True\<rparr>
            else Inr \<lparr>Successors = [clearWeaken State], Sink = False\<rparr>)
         else Inr \<lparr>Successors = [], Sink = False\<rparr>)"

section \<open>The claims in the words of the specification\<close>

text \<open>
  A friend function is an equality (or inequality) operator of the class when it overloads
  that operator and its operands are the class on both sides, or the class on one side and
  the null literal on the other.
\<close>

definition spec_isComparison :: "OverloadedOperatorKind \<Rightarrow> nat \<Rightarrow> FriendDecl \<Rightarrow> bool" where
  "spec_isComparison Op R Friend =
     (case Friend of
        FriendFunction F \<Rightarrow>
          OverloadedOperator F = Op \<and>
          (case parameters F of
             [LHST, RHST] \<Rightarrow>
               (getCXXRecordFromType LHST = Some R \<and> getCXXRecordFromType RHST = Some R)
               \<or> (getCXXRecordFromType LHST = Some R \<and> isNullPtrType (snd RHST))
               \<or> (getCXXRecordFromType RHST = Some R \<and> isNullPtrType (snd LHST))
           | _ \<Rightarrow> False)
      | _ \<Rightarrow> False)"

definition spec_hasEqualityOperators :: "Decls \<Rightarrow> nat \<Rightarrow> bool" where
  "spec_hasEqualityOperators D R =
     (list_ex (spec_isComparison OO_EqualEqual R) (friends (D R)) \<and>
      list_ex (spec_isComparison OO_ExclaimEqual R) (friends (D R)))"



text \<open>
  A throwing \<^verbatim>\<open>new\<close> is one whose allocation function may throw. The allocation functions
  that may not, and report a failure by returning null, are those with a non-throwing
  exception specification: \<^verbatim>\<open>noexcept\<close>, \<^verbatim>\<open>noexcept(true)\<close>, \<^verbatim>\<open>throw()\<close> and the
  \<^verbatim>\<open>nothrow\<close> attribute.
\<close>

definition spec_isNonThrowing :: "ExceptionSpecificationType \<Rightarrow> bool" where
  "spec_isNonThrowing ExcSpec =
     (ExcSpec = EST_DynamicNone \<or> ExcSpec = EST_NoThrow \<or> ExcSpec = EST_BasicNoexcept \<or>
      ExcSpec = EST_NoexceptTrue)"

section \<open>Example inputs\<close>

definition intTy :: QualType where
  "intTy = unqualified BuiltinType"

definition intPtrTy :: QualType where
  "intPtrTy = unqualified (PointerType (Qualifiers False False) BuiltinType)"

definition noDecl :: CXXRecordDecl where
  "noDecl = \<lparr>QualifiedName = [], fieldDecls = [], ctors = [],
     hasSimpleCopyConstructor = False, hasTrivialCopyConstructor = False,
     hasSimpleCopyAssignment = False, hasTrivialCopyAssignment = False,
     VisibleConversionFunctions = [], friends = []\<rparr>"

text \<open>A class \<^verbatim>\<open>gsl::not_null\<close> that declares no data member, as declaration \<open>1\<close>.\<close>

definition emptyNotNullDecls :: Decls where
  "emptyNotNullDecls = (\<lambda>R. noDecl)(1 := noDecl\<lparr>QualifiedName := ''gsl::not_null''\<rparr>)"

text \<open>
  \<^verbatim>\<open>struct P { P() = default; P(decltype(nullptr)); explicit operator bool() const;
  friend void swap(P&, P&); };\<close> as declaration \<open>1\<close>: implicit copy operations, and a single
  friend that is no operator.
\<close>

definition swapFriendDecl :: CXXRecordDecl where
  "swapFriendDecl =
     \<lparr>QualifiedName = ''P'', fieldDecls = [],
      ctors =
        [\<lparr>isDefaultConstructor = True, isCopyConstructor = False,
          isCopyAssignmentOperator = False, isConvertingConstructor = False,
          CtorAccess = AS_public, CtorParams = []\<rparr>,
         \<lparr>isDefaultConstructor = False, isCopyConstructor = False,
          isCopyAssignmentOperator = False, isConvertingConstructor = True,
          CtorAccess = AS_public, CtorParams = [unqualified NullPtrType]\<rparr>],
      hasSimpleCopyConstructor = True, hasTrivialCopyConstructor = True,
      hasSimpleCopyAssignment = True, hasTrivialCopyAssignment = True,
      VisibleConversionFunctions = [CXXConversionDecl (unqualified BooleanType)],
      friends =
        [FriendFunction
           \<lparr>OverloadedOperator = OO_None,
            parameters =
              [unqualified (LValueReferenceType (Qualifiers False False) (RecordType 1)),
               unqualified (LValueReferenceType (Qualifiers False False) (RecordType 1))]\<rparr>]\<rparr>"

definition swapFriendDecls :: Decls where
  "swapFriendDecls = (\<lambda>R. noDecl)(1 := swapFriendDecl)"

text \<open>
  The test suite's \<^verbatim>\<open>NullableScalar\<close>, as declaration \<open>1\<close>: a defaulted default
  constructor, a constructor from the null literal, an explicit conversion to bool, and the
  friends \<^verbatim>\<open>operator==\<close> and \<^verbatim>\<open>operator!=\<close> on two objects of the class.
\<close>

definition nullableScalarDecl :: CXXRecordDecl where
  "nullableScalarDecl =
     swapFriendDecl\<lparr>QualifiedName := ''NullableScalar'',
       friends :=
         [FriendFunction
            \<lparr>OverloadedOperator = OO_EqualEqual,
             parameters = [unqualified (RecordType 1), unqualified (RecordType 1)]\<rparr>,
          FriendFunction
            \<lparr>OverloadedOperator = OO_ExclaimEqual,
             parameters = [unqualified (RecordType 1), unqualified (RecordType 1)]\<rparr>]\<rparr>"

definition nullableScalarDecls :: Decls where
  "nullableScalarDecls = (\<lambda>R. noDecl)(1 := nullableScalarDecl)"

text \<open>A local pointer variable \<^verbatim>\<open>int *p\<close> and a local \<^verbatim>\<open>int x\<close>.\<close>

definition pRegion :: MemRegion where
  "pRegion = NonParamVarRegion 1 intPtrTy"


definition pExpr :: Expr where
  "pExpr = DeclRefExpr intPtrTy 1"













text \<open>A call \<^verbatim>\<open>f()\<close> of an ordinary function.\<close>

definition plainCall :: CallEvent where
  "plainCall =
     \<lparr>OriginExpr = Some (OtherExpr intTy 0), CalleeName = Some ''f'',
      ParamTypes = [], ArgExprs = [], ArgSVals = []\<rparr>"

definition escapedUnknownState :: ProgramState where
  "escapedUnknownState =
     emptyState\<lparr>EscapedNullable :=
       [(SymbolicRegion 7, \<lparr>Constraint = Unknown, Validity = Valid\<rparr>)]\<rparr>"

definition escapedProvenState :: ProgramState where
  "escapedProvenState =
     emptyState\<lparr>EscapedNullable := [(pRegion, \<lparr>Constraint = IsNotNull, Validity = Valid\<rparr>)]\<rparr>"








text \<open>
  A loop condition whose value is a symbol without constraint, and one whose value is the
  constant one (\<^verbatim>\<open>while (true)\<close>).
\<close>

definition condExpr :: Expr where
  "condExpr = OtherExpr (unqualified BooleanType) 0"

definition symbolicCondState :: ProgramState where
  "symbolicCondState = initialState (\<lambda>E. nonloc_SymbolVal 1) (\<lambda>R. UnknownVal)"

definition trueCondState :: ProgramState where
  "trueCondState = initialState (\<lambda>E. nonloc_ConcreteInt 1) (\<lambda>R. UnknownVal)"

text \<open>The state of the copy chain after the third object is found not null.\<close>

definition updatedChainState :: ProgramState where
  "updatedChainState = projr (updateConstraint copyChainState 2 IsNotNull)"

text \<open>
  Two nullable objects, both null, aliased and then separated again by breaking the aliases
  of the first.
\<close>

definition twoKeys :: ProgramState where
  "twoKeys = createConstraint (createConstraint emptyState 1 IsNull) 2 IsNull"

definition brokenState :: ProgramState where
  "brokenState = breakAliases (addAlias twoKeys 1 2) 1"

text \<open>
  A nullable object with the key \<open>1\<close> that was converted to a raw pointer, the symbol \<open>9\<close>,
  and then assigned to the object with the key \<open>2\<close>; and that state after the symbol is
  assumed not null.
\<close>

definition symChainState :: ProgramState where
  "symChainState =
     assignNullableObject (aliasSym (createConstraint emptyState 1 Unknown) 9 1) 2 1"

definition symUpdatedState :: ProgramState where
  "symUpdatedState = projr (updateConstraintSym symChainState 9 IsNotNull)"

text \<open>
  \<^verbatim>\<open>new (std::nothrow) int\<close> where the allocation function selected is declared
  \<^verbatim>\<open>void *operator new(std::size_t, const std::nothrow_t &) throw();\<close>, and the value the
  call returns, the address of a fresh symbolic region.
\<close>

definition nothrowNewExpr :: Expr where
  "nothrowNewExpr = CXXNewExpr intPtrTy (Some EST_DynamicNone)"

definition newResult :: SVal where
  "newResult = loc_MemRegionVal (SymbolicRegion 1)"

text \<open>
  The state in which the object with the key \<open>1\<close> was converted to the pointer with the
  symbol \<open>9\<close>, with that symbol as the value of the loop condition.
\<close>

definition aliasedCondState :: ProgramState where
  "aliasedCondState = symChainState\<lparr>Env := (\<lambda>E. nonloc_SymbolVal 9)\<rparr>"


section \<open>Properties of the type classifier\<close>

text \<open>
  C5, as the code has it: a type is classified as the non-nullable wrapper exactly when,
  with reference and qualifiers stripped, it is a class whose qualified name is
  \<^verbatim>\<open>gsl::not_null\<close>. The data members play no part in the classification.
\<close>

theorem isNonNullableType_iff_name:
  "isNonNullableType D T \<longleftrightarrow>
     (\<exists>R. getCXXRecordFromType T = Some R \<and> QualifiedName (D R) = ''gsl::not_null'')"
  by (simp add: isNonNullableType_def NotNullPtrQualifiedName_def split: option.splits)

theorem isNonNullableType_iff_name_witness:
  "isNonNullableType emptyNotNullDecls (unqualified (RecordType 1))"
  using isNonNullableType_iff_name [of emptyNotNullDecls "unqualified (RecordType 1)"]
  by (simp add: emptyNotNullDecls_def noDecl_def unqualified_def getCXXRecordFromType_def
      getNakedType_def)

text \<open>
  C5 as stated fails: a class named \<^verbatim>\<open>gsl::not_null\<close> without any data member is
  classified as the wrapper, although it has no member \<^verbatim>\<open>ptr_\<close>.
\<close>

theorem isNonNullableType_without_field_counterexample:
  "isNonNullableType emptyNotNullDecls (unqualified (RecordType 1)) \<and>
   \<not> spec_isNonNullableWrapper emptyNotNullDecls (unqualified (RecordType 1)) \<and>
   getNonNullableField emptyNotNullDecls (unqualified (RecordType 1)) = None"
  by (simp add: isNonNullableType_def spec_isNonNullableWrapper_def getNonNullableField_def
      emptyNotNullDecls_def noDecl_def unqualified_def getCXXRecordFromType_def getNakedType_def
      NotNullPtrQualifiedName_def)

text \<open>The nullable object of the test suite is recognised.\<close>

lemma isNullableObject_NullableScalar:
  "isNullableObject nullableScalarDecls (Some 1) = Inr True"
  by (simp add: isNullableObject_def nullableScalarDecls_def nullableScalarDecl_def
      swapFriendDecl_def isNullPtrConversionCtor_def isBoolConversion_def unqualified_def
      getCXXRecordFromType_def getNakedType_def)

text \<open>
  C6 at a class on which the code departs from it: the class has neither an equality nor an
  inequality operator, only a friend \<^verbatim>\<open>swap\<close> on two of its objects, and
  \<^verbatim>\<open>isNullableObject\<close> accepts it. Each friend scan rejects the operator it is looking for
  and accepts any other friend function with the right operands.
\<close>

theorem isNullableObject_accepts_friend_swap:
  "isNullableObject swapFriendDecls (Some 1) = Inr True \<and>
   \<not> spec_hasEqualityOperators swapFriendDecls 1"
  by (simp add: isNullableObject_def swapFriendDecls_def swapFriendDecl_def
      spec_hasEqualityOperators_def spec_isComparison_def isNullPtrConversionCtor_def
      isBoolConversion_def unqualified_def getCXXRecordFromType_def getNakedType_def)

section \<open>Properties of the dereference check\<close>










section \<open>Properties of the alias graph\<close>

text \<open>The alias sets of the copy chain: the first object lists both copies, each copy only it.\<close>

lemma copyChainState_aliases:
  "aliasesOf copyChainState 1 = [2, 3] \<and> aliasesOf copyChainState 2 = [1] \<and>
   aliasesOf copyChainState 3 = [1]"
  by code_simp

lemma updatedChainState_aliased: "aliased updatedChainState 2 1 \<and> aliased updatedChainState 1 3"
  by code_simp

lemma updatedChainState_sameAliasClass: "sameAliasClass updatedChainState 2 3"
  unfolding sameAliasClass_def using updatedChainState_aliased
  by (meson rtranclp.rtrancl_into_rtrancl r_into_rtranclp)

lemma updatedChainState_constraints:
  "\<not> isl (updateConstraint copyChainState 2 IsNotNull) \<and>
   DNOConstraintMap updatedChainState 1 = Some IsNotNull \<and>
   DNOConstraintMap updatedChainState 2 = Some IsNotNull \<and>
   DNOConstraintMap updatedChainState 3 = Some Unknown"
  by code_simp

lemma symUpdatedState_constraints:
  "aliased symUpdatedState 1 2 \<and> \<not> isl (updateConstraintSym symChainState 9 IsNotNull) \<and>
   DNOConstraintMap symUpdatedState 1 = Some IsNotNull \<and>
   DNOConstraintMap symUpdatedState 2 = Some Unknown"
  by code_simp

text \<open>
  C2 at two states on which the code departs from it. After \<^verbatim>\<open>a = c; b = a;\<close> the three
  keys are in one alias class. \<^verbatim>\<open>updateConstraint\<close> on the key of \<open>b\<close> returns a state
  in which \<open>b\<close> and \<open>a\<close> are \<open>IsNotNull\<close> and \<open>c\<close>, in the same class, is still
  \<open>Unknown\<close>: the loop over \<^verbatim>\<open>Pending\<close> stops at the end it read before the first round
  and never reaches the aliases it appends. For the same reason \<^verbatim>\<open>updateConstraint\<close> on a
  symbol writes the keys aliased to the symbol and not the keys aliased to those: the object
  converted to the pointer becomes \<open>IsNotNull\<close>, its alias stays \<open>Unknown\<close>.
\<close>

theorem updateConstraint_misses_transitive_alias:
  "\<not> isl (updateConstraint copyChainState 2 IsNotNull) \<and>
   sameAliasClass updatedChainState 2 3 \<and>
   DNOConstraintMap updatedChainState 2 = Some IsNotNull \<and>
   DNOConstraintMap updatedChainState 3 = Some Unknown \<and>
   \<not> isl (updateConstraintSym symChainState 9 IsNotNull) \<and>
   aliased symUpdatedState 1 2 \<and>
   DNOConstraintMap symUpdatedState 1 = Some IsNotNull \<and>
   DNOConstraintMap symUpdatedState 2 = Some Unknown"
  using updatedChainState_sameAliasClass updatedChainState_constraints
    symUpdatedState_constraints
  by simp

lemma brokenState_aliases: "aliasesOf brokenState 1 = [2] \<and> aliasesOf brokenState 2 = []"
  by code_simp

lemma brokenState_constraints:
  "DNOConstraintMap brokenState 1 = Some IsNull \<and> DNOConstraintMap brokenState 2 = Some IsNull"
  by code_simp

lemma brokenState_update:
  "\<not> isl (updateConstraint brokenState 1 IsNotNull) \<and>
   DNOConstraintMap (projr (updateConstraint brokenState 1 IsNotNull)) 2 = Some IsNotNull"
  by code_simp

text \<open>Breaking aliases never touches a constraint, and neither does adding an alias.\<close>

lemma setAliasLoop_constraints:
  "DNOConstraintMap (setAliasLoop LK Break Pending Visited State) = DNOConstraintMap State"
  by (induction LK Break Pending Visited State rule: setAliasLoop.induct)
     (auto simp: setDNOAliasMap_def split: option.splits)

lemma setAliasInternal_constraints:
  "DNOConstraintMap (setAliasInternal State LK RK Break) = DNOConstraintMap State"
  by (auto simp: setAliasInternal_def Let_def setAliasLoop_constraints setDNOAliasMap_def
           split: option.splits)

lemma addAlias_constraints: "DNOConstraintMap (addAlias State LK RK) = DNOConstraintMap State"
  by (simp add: addAlias_def setAliasInternal_constraints)

lemma breakAlias_constraints: "DNOConstraintMap (breakAlias State LK RK) = DNOConstraintMap State"
  by (simp add: breakAlias_def setAliasInternal_constraints)

lemma fold_breakAlias_constraints:
  "DNOConstraintMap (fold (\<lambda>AliasKey St. breakAlias St LK AliasKey) Aliases State) =
     DNOConstraintMap State"
  by (induction Aliases arbitrary: State) (auto simp: breakAlias_constraints)

lemma breakAliases_constraints: "DNOConstraintMap (breakAliases State LK) = DNOConstraintMap State"
  by (auto simp: breakAliases_def fold_breakAlias_constraints split: option.splits)

text \<open>
  C7 at a state on which the code departs from it. Two keys are aliased and the aliases of
  the first are broken. The second key no longer lists the first, but the first still
  lists the second, so the two are still aliased, and a later update of the first key
  overwrites the constraint of the second. In \<^verbatim>\<open>setAliasInternal\<close> the statement that
  removes \<open>RK\<close> from the set of \<open>LK\<close> is guarded by \<^verbatim>\<open>Break && !Aliases\<close>, which never
  holds there. Both keys do keep their constraints through the break itself.
\<close>

theorem breakAliases_leaves_alias:
  "aliasesOf brokenState 1 = [2] \<and> aliased brokenState 1 2 \<and>
   DNOConstraintMap brokenState 2 = Some IsNull \<and>
   \<not> isl (updateConstraint brokenState 1 IsNotNull) \<and>
   DNOConstraintMap (projr (updateConstraint brokenState 1 IsNotNull)) 2 = Some IsNotNull"
  using brokenState_aliases brokenState_constraints brokenState_update
  by (simp add: aliased_def)

section \<open>Properties of the escape tracker\<close>

lemma map_of_setEscapedNullable:
  "getEscapedNullable (setEscapedNullable St R Rec) R' =
     (if R' = R then Some Rec else getEscapedNullable St R')"
  by (simp add: getEscapedNullable_def setEscapedNullable_def update_conv')















lemma fold_invalidateRecord:
  "distinct (map fst xs) \<Longrightarrow>
   getEscapedNullable (fold invalidateRecord xs St) R =
     (case map_of xs R of
        None \<Rightarrow> getEscapedNullable St R
      | Some Rec \<Rightarrow>
          if Validity Rec = Valid \<and> Constraint Rec \<noteq> Unknown
          then Some (Rec\<lparr>Validity := Invalid\<rparr>) else getEscapedNullable St R)"
proof (induction xs arbitrary: St)
  case Nil
  then show ?case by simp
next
  case (Cons x xs)
  obtain R0 Rec0 where x: "x = (R0, Rec0)" by (cases x)
  from Cons.prems have d: "distinct (map fst xs)" and nin: "R0 \<notin> fst ` set xs"
    by (auto simp: x)
  have none: "map_of xs R0 = None" using nin by (simp add: map_of_eq_None_iff)
  show ?case
    using Cons.IH[OF d, of "invalidateRecord x St"] none
    by (auto simp: x invalidateRecord_def Let_def map_of_setEscapedNullable split: option.splits)
qed

lemma checkPostCallEscaped_lookup:
  assumes "distinct (map fst (EscapedNullable State))"
      and "OriginExpr Call \<noteq> None" and "\<not> ignoreEscapeAnalysis Call"
  shows "getEscapedNullable (checkPostCallEscaped Call State) R =
           map_option invalidated (getEscapedNullable State R)"
proof -
  have "checkPostCallEscaped Call State = invalidateEscaped State"
    using assms(2,3) by (auto simp: checkPostCallEscaped_def split: option.splits)
  then show ?thesis
    using fold_invalidateRecord[OF assms(1), of State R]
    by (auto simp: invalidateEscaped_def invalidated_def getEscapedNullable_def split: option.splits)
qed

text \<open>
  C3, as the code has it: after a call with an origin expression whose callee is not one of
  the allow-listed helpers, an escape record that was \<open>Valid\<close> with a constraint other than
  \<open>Unknown\<close> is \<open>Invalid\<close> with the same constraint, and every other record, a \<open>Valid\<close>
  one with the constraint \<open>Unknown\<close> and an \<open>AlwaysValid\<close> one among them, is as it was.
  The keys of the escape map are distinct.
\<close>

theorem checkPostCall_invalidates_valid_records:
  assumes "distinct (map fst (EscapedNullable State))"
      and "OriginExpr Call \<noteq> None" and "\<not> ignoreEscapeAnalysis Call"
  shows "getEscapedNullable (checkPostCallEscaped Call State) R =
           map_option invalidated (getEscapedNullable State R) \<and>
         (getEscapedNullable State R = Some Rec \<and> Validity Rec = Valid \<and>
          Constraint Rec \<noteq> Unknown \<longrightarrow>
            getEscapedNullable (checkPostCallEscaped Call State) R =
              Some (Rec\<lparr>Validity := Invalid\<rparr>)) \<and>
         (getEscapedNullable State R = Some Rec \<and>
          (Validity Rec \<noteq> Valid \<or> Constraint Rec = Unknown) \<longrightarrow>
            getEscapedNullable (checkPostCallEscaped Call State) R = Some Rec)"
  using checkPostCallEscaped_lookup[OF assms, of R] by (auto simp: invalidated_def)

lemma plainCall_not_ignored: "OriginExpr plainCall \<noteq> None \<and> \<not> ignoreEscapeAnalysis plainCall"
  by (simp add: plainCall_def ignoreEscapeAnalysis_def ignoreEscapeAnalysisFD_def startswith_def
      MakeNotNullQualifiedName_def StdForwardQualifiedName_def StdMoveQualifiedName_def
      NotNullPtrQualifiedName_def)

theorem checkPostCall_invalidates_valid_records_witness:
  "getEscapedNullable (checkPostCallEscaped plainCall escapedProvenState) pRegion =
     Some \<lparr>Constraint = IsNotNull, Validity = Invalid\<rparr>"
proof -
  have d: "distinct (map fst (EscapedNullable escapedProvenState))"
    by (simp add: escapedProvenState_def)
  have g: "getEscapedNullable escapedProvenState pRegion =
             Some \<lparr>Constraint = IsNotNull, Validity = Valid\<rparr>"
    by (simp add: escapedProvenState_def getEscapedNullable_def)
  from plainCall_not_ignored have o: "OriginExpr plainCall \<noteq> None"
    and i: "\<not> ignoreEscapeAnalysis plainCall" by simp_all
  from checkPostCall_invalidates_valid_records
    [OF d o i, of pRegion "\<lparr>Constraint = IsNotNull, Validity = Valid\<rparr>"] g
  show ?thesis by (auto simp: invalidated_def)
qed

text \<open>
  C3 as stated fails: a record that is \<open>Valid\<close> with the constraint \<open>Unknown\<close>, here on a
  symbolic region, is still \<open>Valid\<close> after a call of an ordinary function, through
  \<^verbatim>\<open>checkPreCall\<close> and \<^verbatim>\<open>checkPostCall\<close>.
\<close>

theorem checkPostCall_valid_unknown_counterexample:
  "getEscapedNullable escapedUnknownState (SymbolicRegion 7) =
     Some \<lparr>Constraint = Unknown, Validity = Valid\<rparr> \<and>
   \<not> ignoreEscapeAnalysis plainCall \<and>
   getEscapedNullable (checkPostCallEscaped plainCall escapedUnknownState) (SymbolicRegion 7) =
     Some \<lparr>Constraint = Unknown, Validity = Valid\<rparr> \<and>
   getEscapedNullable
     (checkPostCallEscaped plainCall (checkPreCallRefresh plainCall escapedUnknownState))
     (SymbolicRegion 7) =
     Some \<lparr>Constraint = Unknown, Validity = Valid\<rparr>"
  by (simp add: escapedUnknownState_def plainCall_def emptyState_def initialState_def
      ignoreEscapeAnalysis_def ignoreEscapeAnalysisFD_def startswith_def
      MakeNotNullQualifiedName_def StdForwardQualifiedName_def StdMoveQualifiedName_def
      NotNullPtrQualifiedName_def getEscapedNullable_def checkPostCallEscaped_def
      invalidateEscaped_def invalidateRecord_def checkPreCallRefresh_def refreshRecord_def
      setEscapedNullable_def getNullConstraint_def isGLValLoc_def Let_def)




























text \<open>
  The load in \<^verbatim>\<open>checkLocation\<close> leaves a record of validity \<open>AlwaysInvalid\<close> as it is:
  that validity is read there and written nowhere.
\<close>

lemma checkLocationEscaped_AlwaysInvalid:
  "getEscapedNullable State R = Some Rec \<Longrightarrow> Validity Rec = AlwaysInvalid \<Longrightarrow>
   getEscapedNullable (checkLocationEscaped R RhsNullness NewVal State) R = Some Rec"
  by (simp add: checkLocationEscaped_def bindLoc_def getEscapedNullable_def)

section \<open>Properties of assumptions\<close>

text \<open>
  An assumption on a symbol never changes what the store already records for another or the
  same symbol, and so neither do the updates of the alias graph nor \<^verbatim>\<open>evalAssume\<close>.
\<close>

lemma assumeSym_keeps:
  "assumeSym S s' b = Some S' \<Longrightarrow> SymNull S s = Some v \<Longrightarrow> SymNull S' s = Some v"
  by (auto simp: assumeSym_def split: option.splits if_splits)

lemma updateSymAliases_keeps:
  "updateSymAliases State As Vis C = Inr (State', Vis') \<Longrightarrow> SymNull State s = Some v \<Longrightarrow>
     SymNull State' s = Some v"
proof (induction State As Vis C arbitrary: State' Vis' rule: updateSymAliases.induct)
  case (1 State VisitedSyms C)
  then show ?case by simp
next
  case (2 State SymAlias Rest VisitedSyms C)
  show ?case
  proof (cases "SymAlias \<in> set VisitedSyms")
    case True
    with 2 show ?thesis by simp
  next
    case False
    show ?thesis
    proof (cases "assumeSym (State\<lparr>AliasGuard := True\<rparr>) SymAlias (C = IsNotNull)")
      case None
      with 2 False show ?thesis by simp
    next
      case (Some State1)
      have "SymNull State1 s = Some v"
        using assumeSym_keeps[OF Some, of s v] 2(4) by simp
      then have "SymNull (State1\<lparr>AliasGuard := False\<rparr>) s = Some v" by simp
      with 2 False Some show ?thesis by simp
    qed
  qed
qed

lemma updateConstraintSymLoop_keeps:
  "updateConstraintSymLoop State Ks VS VN C = Inr State' \<Longrightarrow> SymNull State s = Some v \<Longrightarrow>
     SymNull State' s = Some v"
proof (induction State Ks VS VN C arbitrary: State' rule: updateConstraintSymLoop.induct)
  case (1 State VisitedSyms VisitedNullObjs C)
  then show ?case by simp
next
  case (2 State I Rest VisitedSyms VisitedNullObjs C)
  let ?S1 = "setDNOConstraintMap State I C"
  have s1: "SymNull ?S1 s = Some v" using 2 by (simp add: setDNOConstraintMap_def)
  show ?case
  proof (cases "I \<in> set VisitedNullObjs")
    case True
    with 2 show ?thesis by simp
  next
    case False
    show ?thesis
    proof (cases "DNOToPtrAliasMap ?S1 I")
      case None
      with 2 False s1 show ?thesis by (simp add: Let_def)
    next
      case (Some SymAliases)
      show ?thesis
      proof (cases "updateSymAliases ?S1 SymAliases VisitedSyms C")
        case (Inl e)
        with 2 False Some show ?thesis by (simp add: Let_def)
      next
        case (Inr r)
        obtain State2 VS2 where r: "r = (State2, VS2)" by (cases r)
        have "SymNull State2 s = Some v"
          using updateSymAliases_keeps[of ?S1 SymAliases VisitedSyms C State2 VS2 s v] Inr r s1
          by simp
        with 2 False Some Inr r show ?thesis by (simp add: Let_def)
      qed
    qed
  qed
qed

lemma updateConstraintSym_keeps:
  "updateConstraintSym State Sym C = Inr State' \<Longrightarrow> SymNull State s = Some v \<Longrightarrow>
     SymNull State' s = Some v"
  by (auto simp: updateConstraintSym_def split: if_splits option.splits
           dest: updateConstraintSymLoop_keeps)

lemma evalAssumeLoop_keeps:
  "evalAssumeLoop State M = Inr State' \<Longrightarrow> SymNull State s = Some v \<Longrightarrow>
     SymNull State' s = Some v"
proof (induction State M arbitrary: State' rule: evalAssumeLoop.induct)
  case (1 State)
  then show ?case by simp
next
  case (2 State PtrAliases Rest)
  let ?Sym = "fst PtrAliases"
  let ?S1 = "State\<lparr>PtrGuards := F_add (PtrGuards State) ?Sym\<rparr>"
  show ?case
  proof (cases "?Sym \<in> set (PtrGuards State)")
    case True
    with 2 show ?thesis by (simp add: Let_def)
  next
    case False
    let ?R2 = "if SymNull ?S1 ?Sym = Some True then updateConstraintSym ?S1 ?Sym IsNull else Inr ?S1"
    show ?thesis
    proof (cases ?R2)
      case (Inl e)
      with 2(3) False show ?thesis by (simp add: Let_def)
    next
      case (Inr State2)
      have s2: "SymNull State2 s = Some v"
        using Inr 2(4) by (auto split: if_splits dest: updateConstraintSym_keeps)
      let ?R3 = "if SymNull ?S1 ?Sym = Some False then updateConstraintSym State2 ?Sym IsNotNull else Inr State2"
      show ?thesis
      proof (cases ?R3)
        case (Inl e)
        with 2(3) False Inr show ?thesis by (simp add: Let_def)
      next
        case (Inr State3)
        have s3: "SymNull State3 s = Some v"
          using Inr s2 by (auto split: if_splits dest: updateConstraintSym_keeps)
        from 2(3) False \<open>?R2 = Inr State2\<close> Inr
        have "evalAssumeLoop State3 Rest = Inr State'" by (simp add: Let_def)
        from 2(2)[OF refl False refl refl \<open>?R2 = Inr State2\<close> Inr this s3]
        show ?thesis .
      qed
    qed
  qed
qed

lemma evalAssume_keeps:
  "evalAssume State Cond A = Inr State' \<Longrightarrow> SymNull State s = Some v \<Longrightarrow>
     SymNull State' s = Some v"
  by (auto simp: evalAssume_def split: if_splits sum.splits dest: evalAssumeLoop_keeps)

lemma assumeSVal_symbol_false:
  "assumeSVal State (nonloc_SymbolVal s) False = Inr (Some F) \<Longrightarrow> SymNull F s = Some True"
  by (auto simp: assumeSVal_def assumeSym_def split: option.splits sum.splits if_splits
           dest: evalAssume_keeps)

section \<open>Properties of new-expressions\<close>

text \<open>
  What the code does with a new-expression: it is null-safe exactly when the exception
  specification of its allocation function is neither \<^verbatim>\<open>noexcept\<close> nor
  \<^verbatim>\<open>noexcept(true)\<close>, which is the throwing \<^verbatim>\<open>new\<close> of the specification for every
  exception specification but \<^verbatim>\<open>throw()\<close> and the \<^verbatim>\<open>nothrow\<close> attribute; and with such an
  allocation function \<^verbatim>\<open>checkPostCall\<close>, when it returns a state, has constrained the address
  returned to be not null.
\<close>

lemma getType_IgnoreParens: "getType (IgnoreParens E) = getType E"
  by (induction E) auto

lemma isNullSafeExpr_new:
  assumes "IgnoreParens E = CXXNewExpr T (Some X)" and "isRawPointerType T"
  shows "isNullSafeExpr D E = (X \<noteq> EST_BasicNoexcept \<and> X \<noteq> EST_NoexceptTrue)"
proof -
  have "getType E = T" using getType_IgnoreParens[of E] assms(1) by simp
  then show ?thesis using assms by (simp add: isNullSafeExpr_def)
qed

lemma isNullSafeExpr_new_agrees:
  assumes "IgnoreParens E = CXXNewExpr T (Some X)" and "isRawPointerType T"
      and "X \<noteq> EST_DynamicNone" and "X \<noteq> EST_NoThrow"
  shows "isNullSafeExpr D E = (\<not> spec_isNonThrowing X)"
  using isNullSafeExpr_new[OF assms(1,2), of D] assms(3,4) by (simp add: spec_isNonThrowing_def)

lemma checkPostCallNew_not_null:
  assumes "X \<noteq> EST_BasicNoexcept" and "X \<noteq> EST_NoexceptTrue"
      and "checkPostCallNew (CXXNewExpr T (Some X)) (loc_MemRegionVal (SymbolicRegion s)) State =
             Inr State1"
  shows "getNullConstraint (loc_MemRegionVal (SymbolicRegion s)) State1 = IsNotNull"
proof -
  from assms obtain State0 where a: "assumeSym State s True = Some State0"
    and e: "evalAssume State0 (loc_MemRegionVal (SymbolicRegion s)) True = Inr State1"
    by (auto simp: checkPostCallNew_def assumeSVal_def split: option.splits sum.splits)
  from a have "SymNull State0 s = Some False"
    by (auto simp: assumeSym_def split: option.splits if_splits)
  with e have "SymNull State1 s = Some False" by (rule evalAssume_keeps)
  then show ?thesis by (simp add: getNullConstraint_def)
qed

text \<open>
  C8 at an input on which the code departs from it. The allocation function of
  \<^verbatim>\<open>new (std::nothrow) int\<close>, declared \<^verbatim>\<open>throw()\<close>, does not throw and returns null when
  the allocation fails. The code takes the expression for null-safe, and \<^verbatim>\<open>checkPostCall\<close>
  constrains the address returned, whose null constraint was \<open>Unknown\<close>, to be not null,
  so that a dereference of it, reported before, is reported no more; the same happens with
  an allocation function that has the \<^verbatim>\<open>nothrow\<close> attribute. The test
  on the exception specification names \<^verbatim>\<open>noexcept\<close> and \<^verbatim>\<open>noexcept(true)\<close> only, for
  which the result is left nullable.
\<close>

theorem new_expr_nonthrowing_assumed_not_null:
  "spec_isNonThrowing EST_DynamicNone \<and>
   isNullSafeExpr emptyNotNullDecls nothrowNewExpr \<and>
   getNullConstraint newResult emptyState = Unknown \<and>
   checkPostCallNew nothrowNewExpr newResult emptyState =
     Inr (emptyState\<lparr>SymNull := (\<lambda>s. None)(1 \<mapsto> False)\<rparr>) \<and>
   getNullConstraint newResult (emptyState\<lparr>SymNull := (\<lambda>s. None)(1 \<mapsto> False)\<rparr>) = IsNotNull \<and>
   checkPointer Some newResult pExpr emptyState = Some BugNullablePointerDereference \<and>
   checkPointer Some newResult pExpr (emptyState\<lparr>SymNull := (\<lambda>s. None)(1 \<mapsto> False)\<rparr>) = None \<and>
   spec_isNonThrowing EST_NoThrow \<and>
   isNullSafeExpr emptyNotNullDecls (CXXNewExpr intPtrTy (Some EST_NoThrow)) \<and>
   checkPostCallNew (CXXNewExpr intPtrTy (Some EST_NoThrow)) newResult emptyState =
     Inr (emptyState\<lparr>SymNull := (\<lambda>s. None)(1 \<mapsto> False)\<rparr>) \<and>
   spec_isNonThrowing EST_BasicNoexcept \<and>
   \<not> isNullSafeExpr emptyNotNullDecls (CXXNewExpr intPtrTy (Some EST_BasicNoexcept)) \<and>
   checkPostCallNew (CXXNewExpr intPtrTy (Some EST_BasicNoexcept)) newResult emptyState =
     Inr emptyState"
  by (simp add: spec_isNonThrowing_def nothrowNewExpr_def newResult_def isNullSafeExpr_def
      intPtrTy_def unqualified_def isRawPointerType_def checkPostCallNew_def assumeSVal_def
      evalAssume_def assumeSym_def getNullConstraint_def isGLValLoc_def emptyState_def
      initialState_def checkPointer_def derefNullabilityState_def getNullabilityState_def
      isArrayToPointerDecay_def pExpr_def Let_def)

section \<open>Properties of the hooks\<close>

text \<open>
  C10: entering a function whose declaration is implicit adds a sink and no successor
  state, in the top frame and in an inlined one alike.
\<close>

theorem checkBeginFunction_implicit_sinks:
  "isImplicit FD \<Longrightarrow>
   checkBeginFunction D FD inTopFrame State = \<lparr>Successors = [], Sink = True\<rparr>"
  by (simp add: checkBeginFunction_def)

theorem checkBeginFunction_implicit_sinks_witness:
  "checkBeginFunction emptyNotNullDecls
     \<lparr>isImplicit = True, FunQualifiedName = ''S::operator='', FunParams = []\<rparr> True emptyState =
     \<lparr>Successors = [], Sink = True\<rparr>"
  using checkBeginFunction_implicit_sinks
    [of "\<lparr>isImplicit = True, FunQualifiedName = ''S::operator='', FunParams = []\<rparr>"
        emptyNotNullDecls True emptyState]
  by simp

subsection \<open>The loop condition\<close>

text \<open>
  C4, as the code has it. At the second evaluation of a loop condition the checker reads the
  value the condition has in the state and does not evaluate it again. When the value is
  unknown or undefined, the hook adds nothing. When it is not a constant, the hook asks the
  engine for both assumptions and adds at most the state in which the condition is assumed
  false, with the weaken map and the synonyms cleared; the state in which the condition
  holds is dropped. When the value is the constant zero, the only successor is the state
  with the weaken map and the synonyms cleared; when it is another constant, the hook adds a
  sink. So the hook never adds two successors, and a successor for a condition that is a
  symbol has the symbol constrained to zero.
\<close>

theorem checkLoopCondition_second_evaluation:
  "checkLoopCondition 2 S State =
     (if isUnknown (Env State S) \<or> isUndef (Env State S)
        then Inr \<lparr>Successors = [], Sink = False\<rparr>
      else if \<not> isConstant (Env State S) then
        (case assumeDual State (Env State S) of
           Inl e \<Rightarrow> Inl e
         | Inr (StTrue, StFalse) \<Rightarrow>
            Inr \<lparr>Successors = (case StFalse of None \<Rightarrow> [] | Some F \<Rightarrow> [clearWeaken F]),
                 Sink = False\<rparr>)
      else if isZeroConstant (Env State S)
        then Inr \<lparr>Successors = [clearWeaken State], Sink = False\<rparr>
      else Inr \<lparr>Successors = [], Sink = True\<rparr>) \<and>
   (checkLoopCondition 2 S State = Inr Out \<longrightarrow> length (Successors Out) \<le> 1) \<and>
   (Env State S = nonloc_SymbolVal s \<and> checkLoopCondition 2 S State = Inr Out \<and>
    F \<in> set (Successors Out) \<longrightarrow> SymNull F s = Some True)"
proof (intro conjI impI)
  show "checkLoopCondition 2 S State =
     (if isUnknown (Env State S) \<or> isUndef (Env State S)
        then Inr \<lparr>Successors = [], Sink = False\<rparr>
      else if \<not> isConstant (Env State S) then
        (case assumeDual State (Env State S) of
           Inl e \<Rightarrow> Inl e
         | Inr (StTrue, StFalse) \<Rightarrow>
            Inr \<lparr>Successors = (case StFalse of None \<Rightarrow> [] | Some F \<Rightarrow> [clearWeaken F]),
                 Sink = False\<rparr>)
      else if isZeroConstant (Env State S)
        then Inr \<lparr>Successors = [clearWeaken State], Sink = False\<rparr>
      else Inr \<lparr>Successors = [], Sink = True\<rparr>)"
    by (simp add: checkLoopCondition_def Let_def isUnknownOrUndef_def)
next
  assume "checkLoopCondition 2 S State = Inr Out"
  then show "length (Successors Out) \<le> 1"
    by (auto simp: checkLoopCondition_def Let_def split: if_splits sum.splits option.splits)
next
  assume a: "Env State S = nonloc_SymbolVal s \<and> checkLoopCondition 2 S State = Inr Out \<and>
    F \<in> set (Successors Out)"
  then obtain StTrue F0 where d: "assumeDual State (nonloc_SymbolVal s) = Inr (StTrue, Some F0)"
    and F: "F = clearWeaken F0"
    by (auto simp: checkLoopCondition_def Let_def isUnknownOrUndef_def
             split: if_splits sum.splits option.splits)
  from d have "assumeSVal State (nonloc_SymbolVal s) False = Inr (Some F0)"
    by (auto simp: assumeDual_def split: sum.splits)
  then have "SymNull F0 s = Some True" by (rule assumeSVal_symbol_false)
  with F show "SymNull F s = Some True" by (simp add: clearWeaken_def)
qed

theorem checkLoopCondition_second_evaluation_witness:
  "checkLoopCondition 2 condExpr trueCondState = Inr \<lparr>Successors = [], Sink = True\<rparr> \<and>
   map (\<lambda>F. SymNull F 1)
     (Successors (projr (checkLoopCondition 2 condExpr symbolicCondState))) = [Some True]"
proof -
  let ?F = "clearWeaken (symbolicCondState\<lparr>SymNull := (\<lambda>s. None)(1 \<mapsto> True)\<rparr>)"
  let ?Out = "\<lparr>Successors = [?F], Sink = False\<rparr>"
  have e: "Env symbolicCondState condExpr = nonloc_SymbolVal 1"
    by (simp add: symbolicCondState_def initialState_def)
  have c: "checkLoopCondition 2 condExpr symbolicCondState = Inr ?Out"
    by (simp add: checkLoopCondition_def Let_def assumeDual_def assumeSVal_def evalAssume_def
        symbolicCondState_def initialState_def isUnknownOrUndef_def assumeSym_def)
  have t: "Env trueCondState condExpr = nonloc_ConcreteInt 1"
    by (simp add: trueCondState_def initialState_def)
  have w1: "checkLoopCondition 2 condExpr trueCondState = Inr \<lparr>Successors = [], Sink = True\<rparr>"
    using checkLoopCondition_second_evaluation[of condExpr trueCondState, THEN conjunct1] t
    by simp
  have w2: "SymNull ?F 1 = Some True"
    using checkLoopCondition_second_evaluation
            [of condExpr symbolicCondState ?Out 1 ?F, THEN conjunct2, THEN conjunct2] e c
    by simp
  from w1 w2 c show ?thesis by simp
qed

text \<open>
  When the symbol of the condition is aliased to a nullable object, the successor has the
  object constrained as well: the assumption runs \<^verbatim>\<open>evalAssume\<close>.
\<close>

lemma checkLoopCondition_aliased_symbol:
  "\<not> isl (checkLoopCondition 2 condExpr aliasedCondState) \<and>
   map (\<lambda>F. (SymNull F 9, DNOConstraintMap F 1))
     (Successors (projr (checkLoopCondition 2 condExpr aliasedCondState))) =
     [(Some True, Some IsNull)] \<and>
   DNOConstraintMap aliasedCondState 1 = Some Unknown"
  by code_simp

text \<open>
  C4 as stated fails. With a condition whose truth is unknown (both assumptions are
  feasible) the checker adds one successor, the state in which the condition is false, and
  no state for the loop body; with the constant one as the condition it adds a sink and no
  successor.
\<close>

theorem checkLoopCondition_no_fork_counterexample:
  "assumeSVal symbolicCondState (nonloc_SymbolVal 1) True =
     Inr (Some (symbolicCondState\<lparr>SymNull := (\<lambda>s. None)(1 \<mapsto> False)\<rparr>)) \<and>
   assumeSVal symbolicCondState (nonloc_SymbolVal 1) False =
     Inr (Some (symbolicCondState\<lparr>SymNull := (\<lambda>s. None)(1 \<mapsto> True)\<rparr>)) \<and>
   checkLoopCondition 2 condExpr symbolicCondState =
     Inr \<lparr>Successors = [clearWeaken (symbolicCondState\<lparr>SymNull := (\<lambda>s. None)(1 \<mapsto> True)\<rparr>)],
          Sink = False\<rparr> \<and>
   checkLoopCondition 2 condExpr trueCondState = Inr \<lparr>Successors = [], Sink = True\<rparr>"
  by (simp add: checkLoopCondition_def Let_def assumeDual_def assumeSVal_def evalAssume_def
      symbolicCondState_def trueCondState_def initialState_def isUnknownOrUndef_def assumeSym_def)

end
